theory Spec2Isabelle
  imports Complex_Main
begin

section \<open>Digital Policy Sandbox: the simulation rule engine\<close>

text \<open>
  A shallow embedding of the policy-impact simulation engine (class
  \<open>SimulationEngine\<close>) and of the scenario comparator (\<open>compareScenarios\<close>).
  JavaScript numbers are modelled as real numbers, so every statement below is about
  exact arithmetic. Where JavaScript would compute \<open>NaN\<close> or an infinity, the model
  says so: arithmetic on an \<open>undefined\<close> seasonal factor or on an inherited member of a
  lookup table and the division in \<open>staffRequired\<close> give \<open>None\<close> at the field concerned,
  and the division by the permit duration goes through a guarded division with an error
  branch.
\<close>

subsection \<open>Parameter values\<close>

text \<open>
  The values a \<open>PolicyParameters\<close> object may hold according to its index signature,
  \<open>number | string | boolean | undefined\<close>. \<open>NaN\<close> is the one non-real number kept:
  it is what averaging onto a non-numeric string produces.
\<close>

datatype jsval = Undefined | Num real | NaN | Str string | Bool bool

text \<open>An object as \<open>Object.entries\<close> lists it, and the object under construction.\<close>

type_synonym entries = "(string \<times> jsval) list"
type_synonym PolicyParameters = "string \<Rightarrow> jsval option"

text \<open>One element of \<open>input.policies\<close>: \<open>policy.parameters\<close> and the optional overrides.\<close>

record PolicyEntry =
  parameters :: entries
  overrides :: "entries option"

subsection \<open>Objects\<close>

text \<open>
  An object created by an object literal or by \<open>{}\<close> inherits from \<open>Object.prototype\<close>.
  A read \<open>obj[key]\<close> finds the object's own property first; for a key that names a member
  of \<open>Object.prototype\<close> and is not an own property it finds the inherited member, a
  function (for \<open>__proto__\<close> the prototype object): not \<open>undefined\<close>, truthy, and \<open>NaN\<close> in
  arithmetic. The objects are modelled by their own properties.
\<close>

definition inheritedNames :: "string list" where
  "inheritedNames =
     [''constructor'', ''__defineGetter__'', ''__defineSetter__'', ''hasOwnProperty'',
      ''__lookupGetter__'', ''__lookupSetter__'', ''isPrototypeOf'', ''propertyIsEnumerable'',
      ''toString'', ''valueOf'', ''__proto__'', ''toLocaleString'']"

datatype 'a slot = Own 'a | Inherited | Absent

definition js_get :: "(string \<Rightarrow> 'a option) \<Rightarrow> string \<Rightarrow> 'a slot" where
  "js_get obj key =
     (case obj key of
        Some v \<Rightarrow> Own v
      | None \<Rightarrow> if key \<in> set inheritedNames then Inherited else Absent)"

text \<open>
  An assignment \<open>obj[key] = v\<close> of a primitive value creates or updates the own property,
  except for \<open>__proto__\<close>: that assignment runs the inherited setter, which ignores a
  primitive value, and stores nothing.
\<close>

definition js_set :: "(string \<Rightarrow> 'a option) \<Rightarrow> string \<Rightarrow> 'a \<Rightarrow> (string \<Rightarrow> 'a option)" where
  "js_set obj key v = (if key = ''__proto__'' then obj else obj(key \<mapsto> v))"

text \<open>\<open>typeof value === 'number'\<close>\<close>

fun is_number :: "jsval \<Rightarrow> bool" where
  "is_number (Num v) = True"
| "is_number NaN = True"
| "is_number v = False"

text \<open>
  \<open>aggregated[key] !== undefined\<close>: a key that is neither own nor inherited reads as
  \<open>undefined\<close>, an inherited member does not.
\<close>

fun not_undefined :: "jsval slot \<Rightarrow> bool" where
  "not_undefined Absent = False"
| "not_undefined (Own Undefined) = False"
| "not_undefined (Own v) = True"
| "not_undefined Inherited = True"

text \<open>
  \<open>((aggregated[key] as number) + value) / 2\<close> for a \<open>value\<close> of type number. The cast
  checks nothing at run time, so the accumulator may be a boolean (coerced to 0 or 1) or a
  string. For a string, JavaScript concatenates it with the decimal rendering of the number
  and parses the result again; that rendering belongs to floating point, so the outcome is
  the parameter \<open>strAvg\<close>. An inherited member is a function or an object: adding a
  number to it concatenates strings that never parse as a number, so the result is \<open>NaN\<close>.
\<close>

fun js_average :: "(string \<Rightarrow> real \<Rightarrow> jsval) \<Rightarrow> jsval \<Rightarrow> jsval \<Rightarrow> jsval" where
  "js_average strAvg (Num a) (Num v) = Num ((a + v) / 2)"
| "js_average strAvg (Bool b) (Num v) = Num (((if b then 1 else 0) + v) / 2)"
| "js_average strAvg (Str s) (Num v) = strAvg s v"
| "js_average strAvg a v = NaN"

text \<open>The body of the inner loop over \<open>Object.entries(params)\<close>.\<close>

definition mergeParameter ::
  "(string \<Rightarrow> real \<Rightarrow> jsval) \<Rightarrow> string \<times> jsval \<Rightarrow> PolicyParameters \<Rightarrow> PolicyParameters" where
  "mergeParameter strAvg kv aggregated =
     (case kv of (key, value) \<Rightarrow>
        if is_number value \<and> not_undefined (js_get aggregated key)
        then js_set aggregated key
               (case js_get aggregated key of
                  Own a \<Rightarrow> js_average strAvg a value
                | Inherited \<Rightarrow> NaN
                | Absent \<Rightarrow> NaN)
        else js_set aggregated key value)"

text \<open>The body of the loop over \<open>Object.entries(overrides)\<close>.\<close>

definition applyOverride :: "string \<times> jsval \<Rightarrow> PolicyParameters \<Rightarrow> PolicyParameters" where
  "applyOverride kv aggregated = (case kv of (key, value) \<Rightarrow> js_set aggregated key value)"

text \<open>The body of the outer loop: one policy's parameters, then its overrides if present.\<close>

definition aggregateStep ::
  "(string \<Rightarrow> real \<Rightarrow> jsval) \<Rightarrow> PolicyEntry \<Rightarrow> PolicyParameters \<Rightarrow> PolicyParameters" where
  "aggregateStep strAvg p aggregated =
     (let merged = fold (mergeParameter strAvg) (parameters p) aggregated
      in case overrides p of
           None \<Rightarrow> merged
         | Some ov \<Rightarrow> fold applyOverride ov merged)"

definition aggregateParameters ::
  "(string \<Rightarrow> real \<Rightarrow> jsval) \<Rightarrow> PolicyEntry list \<Rightarrow> PolicyParameters" where
  "aggregateParameters strAvg policies = fold (aggregateStep strAvg) policies Map.empty"

text \<open>
  The override that the specification's reading of the aggregator selects for a key: the
  value given by the last policy entry whose overrides contain the key (within one
  overrides object the last entry for the key counts).
\<close>

fun lastOverride :: "PolicyEntry list \<Rightarrow> string \<Rightarrow> jsval option" where
  "lastOverride [] k = None"
| "lastOverride (p # ps) k =
     (case lastOverride ps k of
        Some v \<Rightarrow> Some v
      | None \<Rightarrow> (case overrides p of None \<Rightarrow> None | Some ov \<Rightarrow> map_of (rev ov) k))"

text \<open>Whether a policy entry's own parameter set mentions a key.\<close>

definition hasParameter :: "PolicyEntry \<Rightarrow> string \<Rightarrow> bool" where
  "hasParameter p k = (k \<in> fst ` set (parameters p))"

text \<open>
  What merging an ordinary parameter value does to a value the object already holds: a
  number is averaged with it (unless it is \<open>undefined\<close>), anything else replaces it.
\<close>

definition mergedValue :: "(string \<Rightarrow> real \<Rightarrow> jsval) \<Rightarrow> jsval \<Rightarrow> jsval \<Rightarrow> jsval" where
  "mergedValue strAvg held value =
     (if is_number value \<and> held \<noteq> Undefined then js_average strAvg held value else value)"


subsection \<open>Population records, configuration and results\<close>

text \<open>
  \<open>CitizenGroup\<close> and \<open>BusinessCategory\<close> are database rows: an integer count, a compliance
  rate, and JSON columns read as \<open>Record<string, number> | null\<close>.
\<close>

record CitizenGroup =
  cg_name :: string
  population :: int
  cg_complianceRate :: real
  demographics :: "(string \<Rightarrow> real option) option"
  cg_behaviorRules :: "(string \<Rightarrow> real option) option"

record BusinessCategory =
  bc_name :: string
  bc_count :: int
  bc_complianceRate :: real
  sizeCategory :: "string option"
  bc_behaviorRules :: "(string \<Rightarrow> real option) option"

record SimulationConfig =
  timeHorizon :: real
  includeSeasonality :: bool
  populationGrowth :: real
  economicGrowth :: real

record SimulationInput =
  policies :: "PolicyEntry list"
  citizenGroups :: "CitizenGroup list"
  businessCategories :: "BusinessCategory list"
  config :: SimulationConfig

text \<open>
  A number that the engine can compute as \<open>NaN\<close>: \<open>None\<close> is \<open>NaN\<close>, and arithmetic with
  \<open>NaN\<close> gives \<open>NaN\<close>.
\<close>

type_synonym num = "real option"

fun num2 :: "(real \<Rightarrow> real \<Rightarrow> real) \<Rightarrow> num \<Rightarrow> num \<Rightarrow> num" where
  "num2 f (Some x) (Some y) = Some (f x y)"
| "num2 f x y = None"

record Revenue =
  rev_total :: num
  fromFines :: num
  fromPermits :: num
  fromTaxes :: num
  fromFees :: num
  breakdown :: "string \<Rightarrow> num option"

record Compliance =
  comp_overall :: real
  comp_citizen :: real
  comp_business :: real
  byCategory :: "string \<Rightarrow> real option"

text \<open>\<open>staffRequired\<close> is \<open>None\<close> when its division by \<open>160 * (timeHorizon / 12)\<close> is by zero.\<close>

record Workload =
  totalHours :: real
  inspections :: int
  wl_permits :: int
  appeals :: int
  staffRequired :: "int option"

record Satisfaction =
  sat_overall :: real
  sat_citizen :: real
  sat_business :: real
  byDemographic :: "string \<Rightarrow> real option"

text \<open>
  In a projection, \<open>mp_revenue\<close> and \<open>mp_workload\<close> are \<open>NaN\<close> when the seasonal factor
  read from the table is \<open>undefined\<close>, and \<open>mp_revenue\<close> also when the total revenue is.
\<close>

record MonthlyProjection =
  month :: nat
  mp_revenue :: num
  mp_compliance :: real
  mp_workload :: num
  mp_satisfaction :: real

record SimulationMetrics =
  revenue :: Revenue
  compliance :: Compliance
  workload :: Workload
  satisfaction :: Satisfaction
  monthlyProjections :: "MonthlyProjection list"

definition initializeResults :: SimulationMetrics where
  "initializeResults =
     \<lparr>revenue = \<lparr>rev_total = Some 0, fromFines = Some 0, fromPermits = Some 0,
                  fromTaxes = Some 0, fromFees = Some 0, breakdown = Map.empty\<rparr>,
      compliance = \<lparr>comp_overall = 0, comp_citizen = 0, comp_business = 0,
                     byCategory = Map.empty\<rparr>,
      workload = \<lparr>totalHours = 0, inspections = 0, wl_permits = 0, appeals = 0,
                   staffRequired = Some 0\<rparr>,
      satisfaction = \<lparr>sat_overall = 0, sat_citizen = 0, sat_business = 0,
                       byDemographic = Map.empty\<rparr>,
      monthlyProjections = []\<rparr>"

subsection \<open>Reading fields\<close>

text \<open>
  The models read the named fields of \<open>PolicyParameters\<close>, which the interface types
  \<open>number | undefined\<close>. \<open>undefined\<close> and \<open>NaN\<close> are falsy, like a missing key; strings and
  booleans at a named field are outside the interface and are read as missing too.
\<close>

definition numberField :: "PolicyParameters \<Rightarrow> string \<Rightarrow> real option" where
  "numberField params key = (case params key of Some (Num v) \<Rightarrow> Some v | _ \<Rightarrow> None)"

text \<open>\<open>record?.key\<close> on a \<open>Record<string, number> | null\<close>.\<close>

definition optionalField :: "(string \<Rightarrow> real option) option \<Rightarrow> string \<Rightarrow> real option" where
  "optionalField rec key = (case rec of None \<Rightarrow> None | Some m \<Rightarrow> m key)"

text \<open>Truthiness of a possibly undefined number: \<open>undefined\<close> and 0 are falsy.\<close>

definition truthy :: "real option \<Rightarrow> bool" where
  "truthy x = (case x of None \<Rightarrow> False | Some v \<Rightarrow> v \<noteq> 0)"

text \<open>\<open>x || d\<close> with a number literal \<open>d\<close>.\<close>

definition orDefault :: "real option \<Rightarrow> real \<Rightarrow> real" where
  "orDefault x d = (case x of None \<Rightarrow> d | Some v \<Rightarrow> if v = 0 then d else v)"

text \<open>\<open>business.sizeCategory || 'small'\<close>: \<open>null\<close> and the empty string are falsy.\<close>

definition sizeKey :: "BusinessCategory \<Rightarrow> string" where
  "sizeKey business =
     (case sizeCategory business of None \<Rightarrow> ''small'' | Some s \<Rightarrow> if s = [] then ''small'' else s)"

text \<open>An array read \<open>xs[i]\<close>: \<open>undefined\<close> past the end.\<close>

definition js_index :: "'a list \<Rightarrow> nat \<Rightarrow> 'a option" where
  "js_index xs i = (if i < length xs then Some (xs ! i) else None)"

text \<open>\<open>Math.round\<close> rounds halves towards plus infinity.\<close>

definition js_round :: "real \<Rightarrow> int" where
  "js_round x = \<lfloor>x + 1 / 2\<rfloor>"

subsection \<open>Helper methods\<close>

definition getDetectionRate :: "PolicyParameters \<Rightarrow> real" where
  "getDetectionRate params =
     (let baseRate = 0.3;
          inspectionBoost = min 0.4 (orDefault (numberField params ''inspectionFrequency'') 0 / 25)
      in min 0.9 (baseRate + inspectionBoost))"

definition getPermitEligibility :: "CitizenGroup \<Rightarrow> real" where
  "getPermitEligibility grp = orDefault (optionalField (demographics grp) ''permitEligibility'') 0.3"

definition getAverageIncome :: "CitizenGroup \<Rightarrow> real" where
  "getAverageIncome grp = orDefault (optionalField (demographics grp) ''averageIncome'') 30000"

text \<open>
  The two lookup tables are object literals indexed by the size category. A category that
  is one of their keys reads the number; one that names an inherited member reads that
  member, which is truthy, so \<open>||\<close> keeps it and the products that use it are \<open>NaN\<close>; any
  other category reads as \<open>undefined\<close> and \<open>||\<close> supplies the default.
\<close>

definition sizeMultipliers :: "(string \<times> real) list" where
  "sizeMultipliers = [(''small'', 1), (''medium'', 2), (''large'', 5)]"

definition getBusinessMultiplier :: "BusinessCategory \<Rightarrow> num" where
  "getBusinessMultiplier business =
     (case js_get (map_of sizeMultipliers) (sizeKey business) of
        Own v \<Rightarrow> Some (orDefault (Some v) 1)
      | Inherited \<Rightarrow> None
      | Absent \<Rightarrow> Some (orDefault None 1))"

definition baseRevenue :: "(string \<times> real) list" where
  "baseRevenue = [(''small'', 100000), (''medium'', 500000), (''large'', 2000000)]"

definition getAverageBusinessRevenue :: "BusinessCategory \<Rightarrow> num" where
  "getAverageBusinessRevenue business =
     (let given = optionalField (bc_behaviorRules business) ''averageRevenue''
      in if truthy given then given
         else (case js_get (map_of baseRevenue) (sizeKey business) of
                 Own v \<Rightarrow> Some (orDefault (Some v) 100000)
               | Inherited \<Rightarrow> None
               | Absent \<Rightarrow> Some (orDefault None 100000)))"

text \<open>
  The runner's copy of the engine chooses the multiplier by comparison:
  \<open>sizeCategory === 'large' ? 5 : sizeCategory === 'medium' ? 2 : 1\<close>.
\<close>

definition runnerMultiplier :: "BusinessCategory \<Rightarrow> real" where
  "runnerMultiplier business =
     (if sizeCategory business = Some ''large'' then 5
      else if sizeCategory business = Some ''medium'' then 2 else 1)"

definition getSeasonalityFactors :: "real list" where
  "getSeasonalityFactors = [0.85, 0.88, 0.95, 1.02, 1.08, 1.15, 1.12, 1.10, 1.02, 0.95, 0.88, 1.00]"

subsection \<open>Revenue\<close>

text \<open>
  The loop bodies update \<open>(totalFines, totalPermits, totalTaxes)\<close>. A citizen group adds
  numbers; a business adds products with the looked-up multiplier and average revenue,
  which may be \<open>NaN\<close>.
\<close>

type_synonym totals = "num \<times> num \<times> num"

definition revenueCitizen ::
  "PolicyParameters \<Rightarrow> SimulationConfig \<Rightarrow> CitizenGroup \<Rightarrow> totals \<Rightarrow> totals" where
  "revenueCitizen params cfg grp acc =
     (case acc of (totalFines, totalPermits, totalTaxes) \<Rightarrow>
        let pop = real_of_int (population grp);
            complianceRate = cg_complianceRate grp;
            nonCompliant = pop * (1 - complianceRate);
            detectionRate = getDetectionRate params;
            permitEligible = pop * getPermitEligibility grp;
            avgIncome = getAverageIncome grp
        in (num2 (+) totalFines
              (Some (nonCompliant * detectionRate * orDefault (numberField params ''fineAmount'') 0)),
            num2 (+) totalPermits
              (Some (permitEligible * orDefault (numberField params ''feeAmount'') 0)),
            num2 (+) totalTaxes
              (Some (pop * avgIncome * (orDefault (numberField params ''taxRate'') 0 / 100)
                       * timeHorizon cfg / 12))))"

definition revenueBusiness ::
  "PolicyParameters \<Rightarrow> SimulationConfig \<Rightarrow> BusinessCategory \<Rightarrow> totals \<Rightarrow> totals" where
  "revenueBusiness params cfg business acc =
     (case acc of (totalFines, totalPermits, totalTaxes) \<Rightarrow>
        let cnt = real_of_int (bc_count business);
            complianceRate = bc_complianceRate business;
            nonCompliant = cnt * (1 - complianceRate);
            detectionRate = getDetectionRate params;
            avgRevenue = getAverageBusinessRevenue business
        in (num2 (+) totalFines
              (map_option
                 (\<lambda>multiplier. nonCompliant * detectionRate
                                   * orDefault (numberField params ''fineAmount'') 0 * multiplier)
                 (getBusinessMultiplier business)),
            num2 (+) totalPermits
              (map_option
                 (\<lambda>multiplier. cnt * orDefault (numberField params ''feeAmount'') 0 * multiplier)
                 (getBusinessMultiplier business)),
            num2 (+) totalTaxes
              (map_option
                 (\<lambda>r. cnt * r * (orDefault (numberField params ''taxRate'') 0 / 100)
                        * timeHorizon cfg / 12)
                 avgRevenue)))"

text \<open>The stage for given effective parameters; \<open>totalFees\<close> is set to 0 and never updated.\<close>

definition revenueWith :: "PolicyParameters \<Rightarrow> SimulationInput \<Rightarrow> Revenue" where
  "revenueWith params inp =
     (let totalFees = Some 0;
          cfg = config inp;
          afterCitizens = fold (revenueCitizen params cfg) (citizenGroups inp) (Some 0, Some 0, Some 0)
      in case fold (revenueBusiness params cfg) (businessCategories inp) afterCitizens of
           (totalFines, totalPermits, totalTaxes) \<Rightarrow>
             let growthFactor = 1 + (economicGrowth cfg / 100) * (timeHorizon cfg / 12)
             in \<lparr>rev_total =
                   map_option (\<lambda>x. x * growthFactor)
                     (num2 (+) (num2 (+) (num2 (+) totalFines totalPermits) totalTaxes) totalFees),
                 fromFines = map_option (\<lambda>x. x * growthFactor) totalFines,
                 fromPermits = map_option (\<lambda>x. x * growthFactor) totalPermits,
                 fromTaxes = map_option (\<lambda>x. x * growthFactor) totalTaxes,
                 fromFees = map_option (\<lambda>x. x * growthFactor) totalFees,
                 breakdown =
                   [''citizenFines'' \<mapsto> map_option (\<lambda>x. x * 0.3 * growthFactor) totalFines,
                    ''businessFines'' \<mapsto> map_option (\<lambda>x. x * 0.7 * growthFactor) totalFines,
                    ''citizenPermits'' \<mapsto> map_option (\<lambda>x. x * 0.4 * growthFactor) totalPermits,
                    ''businessPermits'' \<mapsto> map_option (\<lambda>x. x * 0.6 * growthFactor) totalPermits]\<rparr>)"

definition calculateRevenue ::
  "(string \<Rightarrow> real \<Rightarrow> jsval) \<Rightarrow> SimulationInput \<Rightarrow> SimulationMetrics \<Rightarrow> SimulationMetrics" where
  "calculateRevenue strAvg inp results =
     results\<lparr>revenue := revenueWith (aggregateParameters strAvg (policies inp)) inp\<rparr>"

text \<open>
  The number of permit fees an input is charged: each citizen group counts its population
  times its permit eligibility, each business category its count times its multiplier.
\<close>

definition permitUnits :: "SimulationInput \<Rightarrow> num" where
  "permitUnits inp =
     fold (\<lambda>business units.
             num2 (+) units
               (map_option (\<lambda>multiplier. real_of_int (bc_count business) * multiplier)
                  (getBusinessMultiplier business)))
          (businessCategories inp)
          (fold (\<lambda>grp units.
                   num2 (+) units (Some (real_of_int (population grp) * getPermitEligibility grp)))
                (citizenGroups inp) (Some 0))"


subsection \<open>Compliance\<close>

text \<open>
  The loop bodies update the weighted total, the head count, and the shared
  \<open>complianceByCategory\<close> object, by an assignment at the group's name.
\<close>

type_synonym tally = "real \<times> real \<times> (string \<Rightarrow> real option)"

definition citizenAdjustedCompliance :: "PolicyParameters \<Rightarrow> CitizenGroup \<Rightarrow> real" where
  "citizenAdjustedCompliance params grp =
     (let baseCompliance = cg_complianceRate grp;
          fineImpact = min 0.1 (orDefault (numberField params ''fineAmount'') 0 / 10000);
          inspectionImpact = min 0.05 (orDefault (numberField params ''inspectionFrequency'') 0 / 20);
          permitImpact = - min 0.02 ((orDefault (numberField params ''permitDuration'') 365 - 365) / 3650)
      in min 1 (max 0 (baseCompliance + fineImpact + inspectionImpact + permitImpact)))"

definition complianceCitizen :: "PolicyParameters \<Rightarrow> CitizenGroup \<Rightarrow> tally \<Rightarrow> tally" where
  "complianceCitizen params grp acc =
     (case acc of (totalCitizenCompliance, totalCitizenPopulation, complianceByCategory) \<Rightarrow>
        let pop = real_of_int (population grp);
            adjustedCompliance = citizenAdjustedCompliance params grp
        in (totalCitizenCompliance + adjustedCompliance * pop,
            totalCitizenPopulation + pop,
            js_set complianceByCategory (cg_name grp) adjustedCompliance))"

definition businessAdjustedCompliance :: "PolicyParameters \<Rightarrow> BusinessCategory \<Rightarrow> real" where
  "businessAdjustedCompliance params business =
     (let baseCompliance = bc_complianceRate business;
          fineImpact = min 0.15 (orDefault (numberField params ''fineAmount'') 0 / 5000);
          inspectionImpact = min 0.08 (orDefault (numberField params ''inspectionFrequency'') 0 / 12)
      in min 1 (max 0 (baseCompliance + fineImpact + inspectionImpact)))"

definition complianceBusiness :: "PolicyParameters \<Rightarrow> BusinessCategory \<Rightarrow> tally \<Rightarrow> tally" where
  "complianceBusiness params business acc =
     (case acc of (totalBusinessCompliance, totalBusinessCount, complianceByCategory) \<Rightarrow>
        let cnt = real_of_int (bc_count business);
            adjustedCompliance = businessAdjustedCompliance params business
        in (totalBusinessCompliance + adjustedCompliance * cnt,
            totalBusinessCount + cnt,
            js_set complianceByCategory (bc_name business) adjustedCompliance))"

definition complianceWith :: "PolicyParameters \<Rightarrow> SimulationInput \<Rightarrow> Compliance" where
  "complianceWith params inp =
     (case fold (complianceCitizen params) (citizenGroups inp) (0, 0, Map.empty) of
        (totalCitizenCompliance, totalCitizenPopulation, byCitizen) \<Rightarrow>
          (case fold (complianceBusiness params) (businessCategories inp) (0, 0, byCitizen) of
             (totalBusinessCompliance, totalBusinessCount, complianceByCategory) \<Rightarrow>
               let citizenCompliance =
                     (if totalCitizenPopulation > 0
                      then totalCitizenCompliance / totalCitizenPopulation else 0);
                   businessCompliance =
                     (if totalBusinessCount > 0
                      then totalBusinessCompliance / totalBusinessCount else 0)
               in \<lparr>comp_overall = (citizenCompliance + businessCompliance) / 2,
                   comp_citizen = citizenCompliance,
                   comp_business = businessCompliance,
                   byCategory = complianceByCategory\<rparr>))"

definition calculateCompliance ::
  "(string \<Rightarrow> real \<Rightarrow> jsval) \<Rightarrow> SimulationInput \<Rightarrow> SimulationMetrics \<Rightarrow> SimulationMetrics" where
  "calculateCompliance strAvg inp results =
     results\<lparr>compliance := complianceWith (aggregateParameters strAvg (policies inp)) inp\<rparr>"

subsection \<open>Workload\<close>

datatype error = DivisionByZero

text \<open>A division whose divisor is not a nonzero literal, with the zero case made explicit.\<close>

definition guardedDiv :: "real \<Rightarrow> real \<Rightarrow> error + real" where
  "guardedDiv x y = (if y = 0 then Inl DivisionByZero else Inr (x / y))"

text \<open>\<open>12 / ((params.permitDuration || 365) / 30)\<close>\<close>

definition permitRenewalsPerYear :: "PolicyParameters \<Rightarrow> error + real" where
  "permitRenewalsPerYear params =
     guardedDiv 12 (orDefault (numberField params ''permitDuration'') 365 / 30)"

definition workloadWith ::
  "PolicyParameters \<Rightarrow> SimulationInput \<Rightarrow> SimulationMetrics \<Rightarrow> error + Workload" where
  "workloadWith params inp results =
     (let cfg = config inp;
          inspectionRate = orDefault (numberField params ''inspectionFrequency'') 0 / 12;
          citizenInspections =
            fold (\<lambda>grp totalInspections.
                    totalInspections + real_of_int (population grp) * inspectionRate * timeHorizon cfg)
                 (citizenGroups inp) 0;
          totalInspections =
            fold (\<lambda>business totalInspections.
                    totalInspections + real_of_int (bc_count business) * inspectionRate * timeHorizon cfg * 2)
                 (businessCategories inp) citizenInspections;
          totalPopulation = fold (\<lambda>g sum. sum + real_of_int (population g)) (citizenGroups inp) 0;
          totalBusinesses = fold (\<lambda>b sum. sum + real_of_int (bc_count b)) (businessCategories inp) 0
      in case permitRenewalsPerYear params of
           Inl e \<Rightarrow> Inl e
         | Inr renewals \<Rightarrow>
             let totalPermits = (totalPopulation * 0.1 + totalBusinesses) * renewals * (timeHorizon cfg / 12);
                 nonCompliantRate = 1 - comp_overall (compliance results);
                 appealRate = nonCompliantRate * 0.1 * (orDefault (numberField params ''fineAmount'') 0 / 500);
                 totalAppeals = (totalPopulation + totalBusinesses) * appealRate;
                 inspectionHours = totalInspections * 2;
                 permitHours = totalPermits * 0.5;
                 appealHours = totalAppeals * 4;
                 hours = inspectionHours + permitHours + appealHours;
                 staff = (if 160 * (timeHorizon cfg / 12) = 0 then None
                          else Some \<lceil>hours / (160 * (timeHorizon cfg / 12))\<rceil>)
             in Inr \<lparr>totalHours = hours,
                     inspections = js_round totalInspections,
                     wl_permits = js_round totalPermits,
                     appeals = js_round totalAppeals,
                     staffRequired = staff\<rparr>)"

definition calculateWorkload ::
  "(string \<Rightarrow> real \<Rightarrow> jsval) \<Rightarrow> SimulationInput \<Rightarrow> SimulationMetrics \<Rightarrow> error + SimulationMetrics" where
  "calculateWorkload strAvg inp results =
     (case workloadWith (aggregateParameters strAvg (policies inp)) inp results of
        Inl e \<Rightarrow> Inl e
      | Inr w \<Rightarrow> Inr (results\<lparr>workload := w\<rparr>))"

subsection \<open>Satisfaction\<close>

definition baseSatisfaction :: real where
  "baseSatisfaction = 70"

definition satFineImpact :: "PolicyParameters \<Rightarrow> real" where
  "satFineImpact params = - min 20 (orDefault (numberField params ''fineAmount'') 0 / 50)"

definition satPermitImpact :: "PolicyParameters \<Rightarrow> real" where
  "satPermitImpact params = min 10 ((orDefault (numberField params ''permitDuration'') 365 - 180) / 50)"

definition satTaxImpact :: "PolicyParameters \<Rightarrow> real" where
  "satTaxImpact params = - min 15 (orDefault (numberField params ''taxRate'') 0 / 2)"

definition satGraceImpact :: "PolicyParameters \<Rightarrow> real" where
  "satGraceImpact params = min 5 (orDefault (numberField params ''gracePeriod'') 0 / 10)"

definition groupSatisfaction :: "PolicyParameters \<Rightarrow> CitizenGroup \<Rightarrow> real" where
  "groupSatisfaction params grp =
     (let behaviorRules = cg_behaviorRules grp;
          incomeModifier = orDefault (optionalField behaviorRules ''incomeSensitivity'') 1;
          awarenessModifier = orDefault (optionalField behaviorRules ''policyAwareness'') 1
      in min 100 (max 0 (baseSatisfaction + satFineImpact params * incomeModifier
                           + satPermitImpact params + satTaxImpact params
                           + satGraceImpact params * awarenessModifier)))"

definition satisfactionCitizen :: "PolicyParameters \<Rightarrow> CitizenGroup \<Rightarrow> tally \<Rightarrow> tally" where
  "satisfactionCitizen params grp acc =
     (case acc of (totalCitizenSatisfaction, totalCitizenPopulation, satisfactionByDemographic) \<Rightarrow>
        let pop = real_of_int (population grp);
            sat = groupSatisfaction params grp
        in (totalCitizenSatisfaction + sat * pop,
            totalCitizenPopulation + pop,
            js_set satisfactionByDemographic (cg_name grp) sat))"

definition businessSatisfactionOf :: "PolicyParameters \<Rightarrow> BusinessCategory \<Rightarrow> real" where
  "businessSatisfactionOf params business =
     (let behaviorRules = bc_behaviorRules business;
          businessFineImpact = satFineImpact params * 0.5;
          businessPermitImpact = satPermitImpact params * 1.5;
          businessTaxImpact = satTaxImpact params * 1.2;
          sizeModifier = (if sizeCategory business = Some ''large'' then 0.8
                          else if sizeCategory business = Some ''small'' then 1.2 else 1);
          awarenessModifier = orDefault (optionalField behaviorRules ''policyAwareness'') 1
      in min 100 (max 0 (baseSatisfaction + businessFineImpact + businessPermitImpact
                           + businessTaxImpact * sizeModifier * awarenessModifier)))"

definition satisfactionBusiness :: "PolicyParameters \<Rightarrow> BusinessCategory \<Rightarrow> tally \<Rightarrow> tally" where
  "satisfactionBusiness params business acc =
     (case acc of (totalBusinessSatisfaction, totalBusinessCount, satisfactionByDemographic) \<Rightarrow>
        let cnt = real_of_int (bc_count business);
            sat = businessSatisfactionOf params business
        in (totalBusinessSatisfaction + sat * cnt,
            totalBusinessCount + cnt,
            js_set satisfactionByDemographic (bc_name business) sat))"

definition satisfactionWith :: "PolicyParameters \<Rightarrow> SimulationInput \<Rightarrow> Satisfaction" where
  "satisfactionWith params inp =
     (case fold (satisfactionCitizen params) (citizenGroups inp) (0, 0, Map.empty) of
        (totalCitizenSatisfaction, totalCitizenPopulation, byCitizen) \<Rightarrow>
          (case fold (satisfactionBusiness params) (businessCategories inp) (0, 0, byCitizen) of
             (totalBusinessSatisfaction, totalBusinessCount, satisfactionByDemographic) \<Rightarrow>
               let citizenSatisfaction =
                     (if totalCitizenPopulation > 0
                      then totalCitizenSatisfaction / totalCitizenPopulation else baseSatisfaction);
                   businessSatisfaction =
                     (if totalBusinessCount > 0
                      then totalBusinessSatisfaction / totalBusinessCount else baseSatisfaction)
               in \<lparr>sat_overall = (citizenSatisfaction + businessSatisfaction) / 2,
                   sat_citizen = citizenSatisfaction,
                   sat_business = businessSatisfaction,
                   byDemographic = satisfactionByDemographic\<rparr>))"

definition calculateSatisfaction ::
  "(string \<Rightarrow> real \<Rightarrow> jsval) \<Rightarrow> SimulationInput \<Rightarrow> SimulationMetrics \<Rightarrow> SimulationMetrics" where
  "calculateSatisfaction strAvg inp results =
     results\<lparr>satisfaction := satisfactionWith (aggregateParameters strAvg (policies inp)) inp\<rparr>"

subsection \<open>Monthly projections\<close>

text \<open>
  \<open>Math.random()\<close> is a source \<open>random\<close> of numbers indexed by the number of draws made so
  far. The loop state is that number and the projections pushed so far; each month pushes
  one projection and draws twice, first for compliance, then for satisfaction.
\<close>

definition seasonFactorOf :: "SimulationConfig \<Rightarrow> nat \<Rightarrow> real option" where
  "seasonFactorOf cfg m =
     (if includeSeasonality cfg then js_index getSeasonalityFactors (m - 1) else Some 1)"

definition projectionAt ::
  "(nat \<Rightarrow> real) \<Rightarrow> SimulationInput \<Rightarrow> SimulationMetrics \<Rightarrow> nat \<Rightarrow> nat \<Rightarrow> MonthlyProjection" where
  "projectionAt random inp results m draws =
     (let months = timeHorizon (config inp);
          seasonFactor = seasonFactorOf (config inp) m;
          growthFactor = 1 + (economicGrowth (config inp) / 100) * (real m / 12);
          populationFactor = 1 + (populationGrowth (config inp) / 100) * (real m / 12)
      in \<lparr>month = m,
          mp_revenue = num2 (\<lambda>t f. (t / months) * f * growthFactor)
                         (rev_total (revenue results)) seasonFactor,
          mp_compliance = comp_overall (compliance results) * (1 + (random draws * 0.02 - 0.01)),
          mp_workload = map_option (\<lambda>f. (totalHours (workload results) / months) * f) seasonFactor,
          mp_satisfaction =
            sat_overall (satisfaction results) * (1 + (random (draws + 1) * 0.02 - 0.01))\<rparr>)"

definition projectMonth ::
  "(nat \<Rightarrow> real) \<Rightarrow> SimulationInput \<Rightarrow> SimulationMetrics \<Rightarrow> nat
     \<Rightarrow> nat \<times> MonthlyProjection list \<Rightarrow> nat \<times> MonthlyProjection list" where
  "projectMonth random inp results m st =
     (case st of (draws, projections) \<Rightarrow>
        (draws + 2, projections @ [projectionAt random inp results m draws]))"

text \<open>
  \<open>for (let month = 1; month <= months; month++)\<close>: the months visited are the integers
  from 1 to the floor of the time horizon.
\<close>

definition monthRange :: "real \<Rightarrow> nat list" where
  "monthRange months = [1 ..< Suc (nat \<lfloor>months\<rfloor>)]"

definition generateMonthlyProjections ::
  "(nat \<Rightarrow> real) \<Rightarrow> SimulationInput \<Rightarrow> SimulationMetrics \<Rightarrow> SimulationMetrics" where
  "generateMonthlyProjections random inp results =
     results\<lparr>monthlyProjections :=
       snd (fold (projectMonth random inp results) (monthRange (timeHorizon (config inp)))
                 (0, monthlyProjections results))\<rparr>"

subsection \<open>The runner\<close>

definition run ::
  "(string \<Rightarrow> real \<Rightarrow> jsval) \<Rightarrow> (nat \<Rightarrow> real) \<Rightarrow> SimulationInput \<Rightarrow> SimulationMetrics
     \<Rightarrow> error + SimulationMetrics" where
  "run strAvg random inp results =
     (case calculateWorkload strAvg inp
             (calculateCompliance strAvg inp (calculateRevenue strAvg inp results)) of
        Inl e \<Rightarrow> Inl e
      | Inr r \<Rightarrow> Inr (generateMonthlyProjections random inp (calculateSatisfaction strAvg inp r)))"

text \<open>\<open>new SimulationEngine(input).run()\<close>: the constructor installs fresh results.\<close>

definition simulate ::
  "(string \<Rightarrow> real \<Rightarrow> jsval) \<Rightarrow> (nat \<Rightarrow> real) \<Rightarrow> SimulationInput \<Rightarrow> error + SimulationMetrics" where
  "simulate strAvg random inp = run strAvg random inp initializeResults"

subsection \<open>Scenario comparison\<close>

text \<open>\<open>x > 0\<close> on a number that may be \<open>NaN\<close>: a comparison with \<open>NaN\<close> is false.\<close>

definition above0 :: "num \<Rightarrow> bool" where
  "above0 x = (case x of None \<Rightarrow> False | Some v \<Rightarrow> v > 0)"

record Kpis =
  k_revenue :: num
  k_compliance :: real
  k_workload :: real
  k_satisfaction :: real

record Scenario =
  sc_id :: string
  sc_name :: string
  sc_metrics :: SimulationMetrics

record ScenarioResult =
  sr_id :: string
  sr_name :: string
  sr_metrics :: SimulationMetrics
  delta :: Kpis
  percentChange :: Kpis

record ComparisonResult =
  cr_baseline :: SimulationMetrics
  cr_scenarios :: "ScenarioResult list"

definition compareOne :: "SimulationMetrics \<Rightarrow> Scenario \<Rightarrow> ScenarioResult" where
  "compareOne baseline sc =
     (let metrics = sc_metrics sc;
          revenueDelta = num2 (-) (rev_total (revenue metrics)) (rev_total (revenue baseline));
          complianceDelta = comp_overall (compliance metrics) - comp_overall (compliance baseline);
          workloadDelta = totalHours (workload metrics) - totalHours (workload baseline);
          satisfactionDelta = sat_overall (satisfaction metrics) - sat_overall (satisfaction baseline)
      in \<lparr>sr_id = sc_id sc,
          sr_name = sc_name sc,
          sr_metrics = metrics,
          delta = \<lparr>k_revenue = revenueDelta, k_compliance = complianceDelta,
                    k_workload = workloadDelta, k_satisfaction = satisfactionDelta\<rparr>,
          percentChange =
            \<lparr>k_revenue = (if above0 (rev_total (revenue baseline))
                           then num2 (\<lambda>d b. (d / b) * 100) revenueDelta (rev_total (revenue baseline))
                           else Some 0),
             k_compliance = (if comp_overall (compliance baseline) > 0
                              then (complianceDelta / comp_overall (compliance baseline)) * 100 else 0),
             k_workload = (if totalHours (workload baseline) > 0
                            then (workloadDelta / totalHours (workload baseline)) * 100 else 0),
             k_satisfaction = (if sat_overall (satisfaction baseline) > 0
                                then (satisfactionDelta / sat_overall (satisfaction baseline)) * 100
                                else 0)\<rparr>\<rparr>)"

definition compareScenarios :: "SimulationMetrics \<Rightarrow> Scenario list \<Rightarrow> ComparisonResult" where
  "compareScenarios baseline scenarios =
     \<lparr>cr_baseline = baseline, cr_scenarios = map (compareOne baseline) scenarios\<rparr>"


subsection \<open>The percent change of the named-metric comparison\<close>

text \<open>
  The comparison and export routes compare stored metrics by name and compute
  \<open>bm.value !== 0 ? (deltaValue / bm.value) * 100 : 0\<close>.
\<close>

definition metricPercentChange :: "real \<Rightarrow> real \<Rightarrow> real" where
  "metricPercentChange bm sm =
     (let deltaValue = sm - bm in if bm \<noteq> 0 then (deltaValue / bm) * 100 else 0)"

subsection \<open>Concrete inputs\<close>

definition fineOnly :: "real \<Rightarrow> PolicyEntry" where
  "fineOnly v = \<lparr>parameters = [(''fineAmount'', Num v)], overrides = None\<rparr>"

definition threeFines :: "PolicyEntry list" where
  "threeFines = [fineOnly 100, fineOnly 200, fineOnly 300]"

definition overriddenFine :: "real \<Rightarrow> PolicyEntry" where
  "overriddenFine v = \<lparr>parameters = [], overrides = Some [(''fineAmount'', Num v)]\<rparr>"

definition feeOnly :: "real \<Rightarrow> PolicyEntry" where
  "feeOnly v = \<lparr>parameters = [(''feeAmount'', Num v)], overrides = None\<rparr>"

definition noStrings :: "string \<Rightarrow> real \<Rightarrow> jsval" where
  "noStrings s v = NaN"

definition residents :: CitizenGroup where
  "residents =
     \<lparr>cg_name = ''residents'', population = 1000, cg_complianceRate = 0.8,
      demographics = Some [''averageIncome'' \<mapsto> 30000, ''permitEligibility'' \<mapsto> 0.3],
      cg_behaviorRules = None\<rparr>"

definition shops :: BusinessCategory where
  "shops =
     \<lparr>bc_name = ''shops'', bc_count = 40, bc_complianceRate = 0.9,
      sizeCategory = Some ''small'', bc_behaviorRules = None\<rparr>"

definition scenarioPolicy :: PolicyEntry where
  "scenarioPolicy =
     \<lparr>parameters = [(''fineAmount'', Num 150), (''inspectionFrequency'', Num 4),
                    (''feeAmount'', Num 50), (''taxRate'', Num 2.5), (''permitDuration'', Num 365)],
      overrides = None\<rparr>"

definition scenarioConfig :: "real \<Rightarrow> SimulationConfig" where
  "scenarioConfig growth =
     \<lparr>timeHorizon = 12, includeSeasonality = False, populationGrowth = growth, economicGrowth = 0\<rparr>"

definition scenarioInput :: "real \<Rightarrow> SimulationInput" where
  "scenarioInput growth =
     \<lparr>policies = [scenarioPolicy], citizenGroups = [residents], businessCategories = [],
      config = scenarioConfig growth\<rparr>"

definition townInput :: SimulationInput where
  "townInput =
     \<lparr>policies = [scenarioPolicy], citizenGroups = [residents], businessCategories = [shops],
      config = scenarioConfig 2\<rparr>"

definition longHorizon :: SimulationInput where
  "longHorizon =
     \<lparr>policies = [], citizenGroups = [], businessCategories = [],
      config = \<lparr>timeHorizon = 13, includeSeasonality = True, populationGrowth = 0,
                 economicGrowth = 0\<rparr>\<rparr>"

definition withRevenue :: "real \<Rightarrow> SimulationMetrics" where
  "withRevenue v = initializeResults\<lparr>revenue := (revenue initializeResults)\<lparr>rev_total := Some v\<rparr>\<rparr>"

definition lossScenario :: Scenario where
  "lossScenario = \<lparr>sc_id = ''s1'', sc_name = ''smaller loss'', sc_metrics = withRevenue (- 50)\<rparr>"

definition oddShops :: BusinessCategory where
  "oddShops =
     \<lparr>bc_name = ''odd shops'', bc_count = 40, bc_complianceRate = 0.9,
      sizeCategory = Some ''constructor'', bc_behaviorRules = None\<rparr>"

definition oddInput :: SimulationInput where
  "oddInput =
     \<lparr>policies = [scenarioPolicy], citizenGroups = [residents], businessCategories = [oddShops],
      config = scenarioConfig 2\<rparr>"

definition averagedFine :: "real \<Rightarrow> PolicyEntry" where
  "averagedFine v =
     \<lparr>parameters = [(''taxRate'', Num 3), (''fineAmount'', Num v), (''feeAmount'', Num 20)],
      overrides = Some [(''taxRate'', Num 4)]\<rparr>"

section \<open>Properties\<close>

subsection \<open>The runner always returns\<close>

lemma orDefault_nonzero: "d \<noteq> 0 \<Longrightarrow> orDefault x d \<noteq> 0"
  by (simp add: orDefault_def split: option.splits)

lemma permitRenewalsPerYear_value:
  "permitRenewalsPerYear params =
     Inr (12 / (orDefault (numberField params ''permitDuration'') 365 / 30))"
  using orDefault_nonzero [of 365 "numberField params ''permitDuration''"]
  by (simp add: permitRenewalsPerYear_def guardedDiv_def)

lemma workloadWith_returns: "\<exists>w. workloadWith params inp results = Inr w"
  by (simp add: workloadWith_def permitRenewalsPerYear_value Let_def)

lemma fold_projectMonth:
  "fold (projectMonth random inp results) ms (d, ps) =
     (d + 2 * length ms,
      ps @ map (\<lambda>i. projectionAt random inp results (ms ! i) (d + 2 * i)) [0 ..< length ms])"
proof (induction ms rule: rev_induct)
  case Nil
  then show ?case by simp
next
  case (snoc m ms)
  have "map (\<lambda>i. projectionAt random inp results ((ms @ [m]) ! i) (d + 2 * i)) [0 ..< length ms]
      = map (\<lambda>i. projectionAt random inp results (ms ! i) (d + 2 * i)) [0 ..< length ms]"
    by (rule map_cong) (simp_all add: nth_append)
  then show ?case
    using snoc by (simp add: projectMonth_def)
qed

lemma monthRange_length: "length (monthRange months) = nat \<lfloor>months\<rfloor>"
  unfolding monthRange_def length_upt by simp

lemma monthRange_nth: "i < nat \<lfloor>months\<rfloor> \<Longrightarrow> monthRange months ! i = Suc i"
  unfolding monthRange_def by (simp add: nth_upt del: upt_Suc)

lemma generated_projections:
  "monthlyProjections (generateMonthlyProjections random inp results) =
     monthlyProjections results @
       map (\<lambda>i. projectionAt random inp results (Suc i) (2 * i))
           [0 ..< nat \<lfloor>timeHorizon (config inp)\<rfloor>]"
  by (simp add: generateMonthlyProjections_def fold_projectMonth monthRange_length monthRange_nth)

lemma projectionAt_cong:
  assumes "revenue a = revenue b" "compliance a = compliance b"
    "workload a = workload b" "satisfaction a = satisfaction b"
  shows "projectionAt random inp a = projectionAt random inp b"
  using assms by (intro ext) (simp add: projectionAt_def)

text \<open>
  A run returns metrics whose four groups are the four stages' results for the aggregated
  parameters, and whose projections are the earlier ones followed by one per month.
\<close>

lemma run_fields:
  "\<exists>m. run strAvg random inp results = Inr m
     \<and> revenue m = revenueWith (aggregateParameters strAvg (policies inp)) inp
     \<and> compliance m = complianceWith (aggregateParameters strAvg (policies inp)) inp
     \<and> satisfaction m = satisfactionWith (aggregateParameters strAvg (policies inp)) inp
     \<and> workloadWith (aggregateParameters strAvg (policies inp)) inp
          (calculateCompliance strAvg inp (calculateRevenue strAvg inp results)) = Inr (workload m)
     \<and> monthlyProjections m =
          monthlyProjections results @
            map (\<lambda>i. projectionAt random inp m (Suc i) (2 * i))
                [0 ..< nat \<lfloor>timeHorizon (config inp)\<rfloor>]"
proof -
  obtain w where w: "workloadWith (aggregateParameters strAvg (policies inp)) inp
          (calculateCompliance strAvg inp (calculateRevenue strAvg inp results)) = Inr w"
    using workloadWith_returns by blast
  define r where "r = calculateSatisfaction strAvg inp
        ((calculateCompliance strAvg inp (calculateRevenue strAvg inp results))\<lparr>workload := w\<rparr>)"
  have run: "run strAvg random inp results = Inr (generateMonthlyProjections random inp r)"
    by (simp add: run_def calculateWorkload_def w r_def)
  have same: "projectionAt random inp r = projectionAt random inp (generateMonthlyProjections random inp r)"
    by (rule projectionAt_cong) (simp_all add: generateMonthlyProjections_def)
  have mp: "monthlyProjections r = monthlyProjections results"
    by (simp add: r_def calculateSatisfaction_def calculateCompliance_def calculateRevenue_def)
  have "monthlyProjections (generateMonthlyProjections random inp r) =
          monthlyProjections results @
            map (\<lambda>i. projectionAt random inp (generateMonthlyProjections random inp r) (Suc i) (2 * i))
                [0 ..< nat \<lfloor>timeHorizon (config inp)\<rfloor>]"
    unfolding generated_projections mp same ..
  moreover have "revenue (generateMonthlyProjections random inp r)
        = revenueWith (aggregateParameters strAvg (policies inp)) inp"
    "compliance (generateMonthlyProjections random inp r)
        = complianceWith (aggregateParameters strAvg (policies inp)) inp"
    "satisfaction (generateMonthlyProjections random inp r)
        = satisfactionWith (aggregateParameters strAvg (policies inp)) inp"
    "workload (generateMonthlyProjections random inp r) = w"
    by (simp_all add: generateMonthlyProjections_def r_def calculateSatisfaction_def
        calculateCompliance_def calculateRevenue_def)
  ultimately show ?thesis
    using run w by auto
qed


subsection \<open>Weighted averages of clamped values\<close>

lemma tally_fold:
  fixes lo hi t n :: real
  assumes "\<forall>x\<in>set xs. 0 \<le> w x \<and> lo \<le> f x \<and> f x \<le> hi"
    and "lo * n \<le> t" and "t \<le> hi * n" and "0 \<le> n"
    and "\<forall>k v. m k = Some v \<longrightarrow> lo \<le> v \<and> v \<le> hi"
    and "fold (\<lambda>x acc. case acc of (t, n, m) \<Rightarrow> (t + f x * w x, n + w x, js_set m (key x) (f x))) xs (t, n, m)
           = (t', n', m')"
  shows "lo * n' \<le> t' \<and> t' \<le> hi * n' \<and> 0 \<le> n' \<and> (\<forall>k v. m' k = Some v \<longrightarrow> lo \<le> v \<and> v \<le> hi)"
  using assms
proof (induction xs arbitrary: t n m)
  case Nil
  then show ?case by simp
next
  case (Cons x xs)
  have wx: "0 \<le> w x" and fx: "lo \<le> f x" "f x \<le> hi" using Cons.prems(1) by auto
  have a: "lo * (n + w x) \<le> t + f x * w x"
    using Cons.prems(2) mult_right_mono [OF fx(1) wx] by (simp add: algebra_simps)
  have b: "t + f x * w x \<le> hi * (n + w x)"
    using Cons.prems(3) mult_right_mono [OF fx(2) wx] by (simp add: algebra_simps)
  have c: "0 \<le> n + w x" using Cons.prems(4) wx by simp
  have d: "\<forall>k v. js_set m (key x) (f x) k = Some v \<longrightarrow> lo \<le> v \<and> v \<le> hi"
    using Cons.prems(5) fx by (auto simp: js_set_def)
  show ?case
    by (rule Cons.IH [OF _ a b c d]) (use Cons.prems in simp_all)
qed

lemma average_bounds:
  fixes t n :: real
  assumes "lo * n \<le> t" "t \<le> hi * n" "0 < n"
  shows "lo \<le> t / n \<and> t / n \<le> hi"
  using assms by (simp add: pos_le_divide_eq pos_divide_le_eq)

lemma complianceCitizen_tally:
  "complianceCitizen params =
     (\<lambda>x acc. case acc of (t, n, m) \<Rightarrow>
        (t + citizenAdjustedCompliance params x * real_of_int (population x),
         n + real_of_int (population x),
         js_set m (cg_name x) (citizenAdjustedCompliance params x)))"
  by (intro ext) (simp add: complianceCitizen_def Let_def split: prod.splits)

lemma complianceBusiness_tally:
  "complianceBusiness params =
     (\<lambda>x acc. case acc of (t, n, m) \<Rightarrow>
        (t + businessAdjustedCompliance params x * real_of_int (bc_count x),
         n + real_of_int (bc_count x),
         js_set m (bc_name x) (businessAdjustedCompliance params x)))"
  by (intro ext) (simp add: complianceBusiness_def Let_def split: prod.splits)

lemma satisfactionCitizen_tally:
  "satisfactionCitizen params =
     (\<lambda>x acc. case acc of (t, n, m) \<Rightarrow>
        (t + groupSatisfaction params x * real_of_int (population x),
         n + real_of_int (population x),
         js_set m (cg_name x) (groupSatisfaction params x)))"
  by (intro ext) (simp add: satisfactionCitizen_def Let_def split: prod.splits)

lemma satisfactionBusiness_tally:
  "satisfactionBusiness params =
     (\<lambda>x acc. case acc of (t, n, m) \<Rightarrow>
        (t + businessSatisfactionOf params x * real_of_int (bc_count x),
         n + real_of_int (bc_count x),
         js_set m (bc_name x) (businessSatisfactionOf params x)))"
  by (intro ext) (simp add: satisfactionBusiness_def Let_def split: prod.splits)

lemma citizenAdjustedCompliance_range:
  "0 \<le> citizenAdjustedCompliance params g \<and> citizenAdjustedCompliance params g \<le> 1"
  by (simp add: citizenAdjustedCompliance_def Let_def)

lemma businessAdjustedCompliance_range:
  "0 \<le> businessAdjustedCompliance params b \<and> businessAdjustedCompliance params b \<le> 1"
  by (simp add: businessAdjustedCompliance_def Let_def)

lemma groupSatisfaction_range:
  "0 \<le> groupSatisfaction params g \<and> groupSatisfaction params g \<le> 100"
  by (simp add: groupSatisfaction_def Let_def)

lemma businessSatisfactionOf_range:
  "0 \<le> businessSatisfactionOf params b \<and> businessSatisfactionOf params b \<le> 100"
  by (simp add: businessSatisfactionOf_def Let_def)

lemma complianceWith_ranges:
  assumes pops: "\<forall>g\<in>set (citizenGroups inp). 0 \<le> population g"
    and counts: "\<forall>b\<in>set (businessCategories inp). 0 \<le> bc_count b"
  shows "0 \<le> comp_citizen (complianceWith params inp) \<and> comp_citizen (complianceWith params inp) \<le> 1
       \<and> 0 \<le> comp_business (complianceWith params inp) \<and> comp_business (complianceWith params inp) \<le> 1
       \<and> 0 \<le> comp_overall (complianceWith params inp) \<and> comp_overall (complianceWith params inp) \<le> 1
       \<and> (\<forall>k v. byCategory (complianceWith params inp) k = Some v \<longrightarrow> 0 \<le> v \<and> v \<le> 1)"
proof -
  obtain tc tp m1 where c: "fold (complianceCitizen params) (citizenGroups inp) (0, 0, Map.empty) = (tc, tp, m1)"
    by (metis prod_cases3)
  obtain tb tn m2 where b: "fold (complianceBusiness params) (businessCategories inp) (0, 0, m1) = (tb, tn, m2)"
    by (metis prod_cases3)
  have C: "0 * tp \<le> tc \<and> tc \<le> 1 * tp \<and> 0 \<le> tp \<and> (\<forall>k v. m1 k = Some v \<longrightarrow> 0 \<le> v \<and> v \<le> 1)"
    by (rule tally_fold [OF _ _ _ _ _ c [unfolded complianceCitizen_tally]])
       (use pops citizenAdjustedCompliance_range in simp_all)
  then have m1: "\<forall>k v. m1 k = Some v \<longrightarrow> 0 \<le> v \<and> v \<le> 1" by blast
  have B: "0 * tn \<le> tb \<and> tb \<le> 1 * tn \<and> 0 \<le> tn \<and> (\<forall>k v. m2 k = Some v \<longrightarrow> 0 \<le> v \<and> v \<le> 1)"
    by (rule tally_fold [OF _ _ _ _ m1 b [unfolded complianceBusiness_tally]])
       (use counts businessAdjustedCompliance_range in simp_all)
  have cc: "0 \<le> (if tp > 0 then tc / tp else 0) \<and> (if tp > 0 then tc / tp else 0) \<le> 1"
    using C average_bounds [of 0 tp tc 1] by auto
  have bb: "0 \<le> (if tn > 0 then tb / tn else 0) \<and> (if tn > 0 then tb / tn else 0) \<le> 1"
    using B average_bounds [of 0 tn tb 1] by auto
  have eq: "complianceWith params inp =
      \<lparr>comp_overall = ((if tp > 0 then tc / tp else 0) + (if tn > 0 then tb / tn else 0)) / 2,
       comp_citizen = (if tp > 0 then tc / tp else 0),
       comp_business = (if tn > 0 then tb / tn else 0),
       byCategory = m2\<rparr>"
    by (simp add: complianceWith_def c b Let_def)
  show ?thesis
    unfolding eq using cc bb B by simp
qed

lemma satisfactionWith_ranges:
  assumes pops: "\<forall>g\<in>set (citizenGroups inp). 0 \<le> population g"
    and counts: "\<forall>b\<in>set (businessCategories inp). 0 \<le> bc_count b"
  shows "0 \<le> sat_citizen (satisfactionWith params inp) \<and> sat_citizen (satisfactionWith params inp) \<le> 100
       \<and> 0 \<le> sat_business (satisfactionWith params inp) \<and> sat_business (satisfactionWith params inp) \<le> 100
       \<and> 0 \<le> sat_overall (satisfactionWith params inp) \<and> sat_overall (satisfactionWith params inp) \<le> 100
       \<and> (\<forall>k v. byDemographic (satisfactionWith params inp) k = Some v \<longrightarrow> 0 \<le> v \<and> v \<le> 100)"
proof -
  obtain tc tp m1 where c: "fold (satisfactionCitizen params) (citizenGroups inp) (0, 0, Map.empty) = (tc, tp, m1)"
    by (metis prod_cases3)
  obtain tb tn m2 where b: "fold (satisfactionBusiness params) (businessCategories inp) (0, 0, m1) = (tb, tn, m2)"
    by (metis prod_cases3)
  have C: "0 * tp \<le> tc \<and> tc \<le> 100 * tp \<and> 0 \<le> tp \<and> (\<forall>k v. m1 k = Some v \<longrightarrow> 0 \<le> v \<and> v \<le> 100)"
    by (rule tally_fold [OF _ _ _ _ _ c [unfolded satisfactionCitizen_tally]])
       (use pops groupSatisfaction_range in simp_all)
  then have m1: "\<forall>k v. m1 k = Some v \<longrightarrow> 0 \<le> v \<and> v \<le> 100" by blast
  have B: "0 * tn \<le> tb \<and> tb \<le> 100 * tn \<and> 0 \<le> tn \<and> (\<forall>k v. m2 k = Some v \<longrightarrow> 0 \<le> v \<and> v \<le> 100)"
    by (rule tally_fold [OF _ _ _ _ m1 b [unfolded satisfactionBusiness_tally]])
       (use counts businessSatisfactionOf_range in simp_all)
  have cc: "0 \<le> (if tp > 0 then tc / tp else baseSatisfaction)
          \<and> (if tp > 0 then tc / tp else baseSatisfaction) \<le> 100"
    using C average_bounds [of 0 tp tc 100] by (auto simp: baseSatisfaction_def)
  have bb: "0 \<le> (if tn > 0 then tb / tn else baseSatisfaction)
          \<and> (if tn > 0 then tb / tn else baseSatisfaction) \<le> 100"
    using B average_bounds [of 0 tn tb 100] by (auto simp: baseSatisfaction_def)
  have eq: "satisfactionWith params inp =
      \<lparr>sat_overall = ((if tp > 0 then tc / tp else baseSatisfaction)
                        + (if tn > 0 then tb / tn else baseSatisfaction)) / 2,
       sat_citizen = (if tp > 0 then tc / tp else baseSatisfaction),
       sat_business = (if tn > 0 then tb / tn else baseSatisfaction),
       byDemographic = m2\<rparr>"
    by (simp add: satisfactionWith_def c b Let_def)
  show ?thesis
    unfolding eq using cc bb B by simp
qed

text \<open>
  C1. When every citizen population and every business count is non-negative, a run
  returns metrics whose compliance values (overall, citizen, business and every entry by
  category) lie in [0,1] and whose satisfaction values (overall, citizen, business and
  every entry by demographic) lie in [0,100]. The baseline compliance rates need no
  bound for this, since every adjusted rate is clamped.
\<close>

theorem metrics_in_range:
  assumes pops: "\<forall>g\<in>set (citizenGroups inp). 0 \<le> population g"
    and counts: "\<forall>b\<in>set (businessCategories inp). 0 \<le> bc_count b"
  shows "\<exists>m. run strAvg random inp results = Inr m
     \<and> 0 \<le> comp_overall (compliance m) \<and> comp_overall (compliance m) \<le> 1
     \<and> 0 \<le> comp_citizen (compliance m) \<and> comp_citizen (compliance m) \<le> 1
     \<and> 0 \<le> comp_business (compliance m) \<and> comp_business (compliance m) \<le> 1
     \<and> (\<forall>k v. byCategory (compliance m) k = Some v \<longrightarrow> 0 \<le> v \<and> v \<le> 1)
     \<and> 0 \<le> sat_overall (satisfaction m) \<and> sat_overall (satisfaction m) \<le> 100
     \<and> 0 \<le> sat_citizen (satisfaction m) \<and> sat_citizen (satisfaction m) \<le> 100
     \<and> 0 \<le> sat_business (satisfaction m) \<and> sat_business (satisfaction m) \<le> 100
     \<and> (\<forall>k v. byDemographic (satisfaction m) k = Some v \<longrightarrow> 0 \<le> v \<and> v \<le> 100)"
proof -
  obtain m where m: "run strAvg random inp results = Inr m"
    "compliance m = complianceWith (aggregateParameters strAvg (policies inp)) inp"
    "satisfaction m = satisfactionWith (aggregateParameters strAvg (policies inp)) inp"
    using run_fields [of strAvg random inp results] by blast
  show ?thesis
    using complianceWith_ranges [OF pops counts, of "aggregateParameters strAvg (policies inp)"]
      satisfactionWith_ranges [OF pops counts, of "aggregateParameters strAvg (policies inp)"]
    unfolding m(2) [symmetric] m(3) [symmetric]
    using m(1) by blast
qed

theorem metrics_in_range_witness:
  "list_all (\<lambda>g. 0 \<le> population g) (citizenGroups townInput)
   \<and> list_all (\<lambda>b. 0 \<le> bc_count b) (businessCategories townInput)
   \<and> (\<exists>m. simulate noStrings (\<lambda>n. 0) townInput = Inr m
        \<and> 0 \<le> comp_overall (compliance m) \<and> comp_overall (compliance m) \<le> 1
        \<and> 0 \<le> comp_citizen (compliance m) \<and> comp_citizen (compliance m) \<le> 1
        \<and> 0 \<le> comp_business (compliance m) \<and> comp_business (compliance m) \<le> 1
        \<and> (\<forall>k v. byCategory (compliance m) k = Some v \<longrightarrow> 0 \<le> v \<and> v \<le> 1)
        \<and> 0 \<le> sat_overall (satisfaction m) \<and> sat_overall (satisfaction m) \<le> 100
        \<and> 0 \<le> sat_citizen (satisfaction m) \<and> sat_citizen (satisfaction m) \<le> 100
        \<and> 0 \<le> sat_business (satisfaction m) \<and> sat_business (satisfaction m) \<le> 100
        \<and> (\<forall>k v. byDemographic (satisfaction m) k = Some v \<longrightarrow> 0 \<le> v \<and> v \<le> 100))"
proof -
  have pops: "\<forall>g\<in>set (citizenGroups townInput). 0 \<le> population g"
    by (simp add: townInput_def residents_def)
  have counts: "\<forall>b\<in>set (businessCategories townInput). 0 \<le> bc_count b"
    by (simp add: townInput_def shops_def)
  show ?thesis
    using pops counts metrics_in_range [OF pops counts, of noStrings "\<lambda>n. 0" initializeResults]
    unfolding simulate_def list_all_iff by blast
qed


subsection \<open>The parameter aggregator\<close>

text \<open>
  C2 (as stated). Aggregating three policies that set \<open>fineAmount\<close> to 100, 200 and 300
  does not yield 187.5.
\<close>

theorem threeFines_not_187_5:
  "aggregateParameters noStrings threeFines ''fineAmount'' \<noteq> Some (Num 187.5)"
  by (simp add: aggregateParameters_def aggregateStep_def mergeParameter_def threeFines_def
      fineOnly_def js_get_def js_set_def inheritedNames_def)

text \<open>
  C2 (amended). Aggregating three policies that set \<open>fineAmount\<close> to 100, 200 and 300
  yields 225, the value of the pairwise running average ((100+200)/2 + 300)/2, and not
  the mean 200.
\<close>

theorem threeFines_running_average:
  "aggregateParameters strAvg threeFines ''fineAmount'' = Some (Num 225)
   \<and> (225 :: real) = ((100 + 200) / 2 + 300) / 2
   \<and> aggregateParameters strAvg threeFines ''fineAmount'' \<noteq> Some (Num 200)"
  by (simp add: aggregateParameters_def aggregateStep_def mergeParameter_def threeFines_def
      fineOnly_def js_get_def js_set_def inheritedNames_def)

lemma js_set_other: "key \<noteq> k \<Longrightarrow> js_set m key v k = m k"
  by (simp add: js_set_def)

lemma js_set_same: "k \<noteq> ''__proto__'' \<Longrightarrow> js_set m k v k = Some v"
  by (simp add: js_set_def)

lemma fold_applyOverride:
  "k \<noteq> ''__proto__'' \<Longrightarrow>
   fold applyOverride ov m k = (case map_of (rev ov) k of Some v \<Rightarrow> Some v | None \<Rightarrow> m k)"
  by (induction ov arbitrary: m) (auto simp: applyOverride_def js_set_def split: option.splits)

lemma fold_mergeParameter_other:
  "k \<notin> fst ` set ps \<Longrightarrow> fold (mergeParameter strAvg) ps m k = m k"
  by (induction ps arbitrary: m) (auto simp: mergeParameter_def js_set_def)

lemma not_undefined_Own: "not_undefined (Own a) = (a \<noteq> Undefined)"
  by (cases a) simp_all

lemma mergeParameter_held:
  "m k = Some a \<Longrightarrow> k \<noteq> ''__proto__'' \<Longrightarrow>
   mergeParameter strAvg (k, x) m k = Some (mergedValue strAvg a x)"
  by (simp add: mergeParameter_def mergedValue_def js_get_def js_set_def not_undefined_Own)

lemma fold_mergeParameter_once:
  assumes "m k = Some a" "k \<noteq> ''__proto__''" "k \<notin> fst ` set pre" "k \<notin> fst ` set post"
  shows "fold (mergeParameter strAvg) (pre @ (k, x) # post) m k = Some (mergedValue strAvg a x)"
proof -
  have "fold (mergeParameter strAvg) pre m k = Some a"
    using assms by (simp add: fold_mergeParameter_other)
  then have "mergeParameter strAvg (k, x) (fold (mergeParameter strAvg) pre m) k
      = Some (mergedValue strAvg a x)"
    using assms(2) by (rule mergeParameter_held)
  then show ?thesis
    using assms(4) by (simp add: fold_mergeParameter_other)
qed

lemma aggregateStep_other:
  "\<not> hasParameter p k \<Longrightarrow> lastOverride [p] k = None \<Longrightarrow> k \<noteq> ''__proto__'' \<Longrightarrow>
   aggregateStep strAvg p m k = m k"
  by (auto simp: aggregateStep_def hasParameter_def fold_applyOverride fold_mergeParameter_other
      Let_def split: option.splits)

lemma aggregateStep_override:
  "overrides p = Some ov \<Longrightarrow> map_of (rev ov) k = Some v \<Longrightarrow> k \<noteq> ''__proto__'' \<Longrightarrow>
   aggregateStep strAvg p m k = Some v"
  by (simp add: aggregateStep_def fold_applyOverride)

lemma aggregateStep_parameter:
  assumes "m k = Some a" "k \<noteq> ''__proto__''"
    and "parameters q = pre @ (k, x) # post" "k \<notin> fst ` set pre" "k \<notin> fst ` set post"
    and "lastOverride [q] k = None"
  shows "aggregateStep strAvg q m k = Some (mergedValue strAvg a x)"
proof -
  have merged: "fold (mergeParameter strAvg) (parameters q) m k = Some (mergedValue strAvg a x)"
    unfolding assms(3) using assms(1,2,4,5) by (rule fold_mergeParameter_once)
  show ?thesis
    using assms(6) merged assms(2)
    by (auto simp: aggregateStep_def fold_applyOverride Let_def split: option.splits)
qed

lemma fold_aggregateStep_other:
  "list_all (\<lambda>p. \<not> hasParameter p k) ps \<Longrightarrow> lastOverride ps k = None \<Longrightarrow> k \<noteq> ''__proto__'' \<Longrightarrow>
   fold (aggregateStep strAvg) ps m k = m k"
proof (induction ps arbitrary: m)
  case Nil
  then show ?case by simp
next
  case (Cons p ps)
  from Cons.prems have a: "lastOverride ps k = None" and b: "lastOverride [p] k = None"
    by (auto split: option.splits)
  show ?case
    using Cons a b by (simp add: aggregateStep_other)
qed

text \<open>An assignment at \<open>__proto__\<close> stores nothing, so the aggregated object never owns it.\<close>

lemma aggregateStep_proto: "m ''__proto__'' = None \<Longrightarrow> aggregateStep strAvg p m ''__proto__'' = None"
proof -
  have merge: "fold (mergeParameter strAvg) ps m ''__proto__'' = m ''__proto__''" for ps m
    by (induction ps arbitrary: m) (auto simp: mergeParameter_def js_set_def)
  have over: "fold applyOverride ov m ''__proto__'' = m ''__proto__''" for ov m
    by (induction ov arbitrary: m) (auto simp: applyOverride_def js_set_def)
  show "m ''__proto__'' = None \<Longrightarrow> aggregateStep strAvg p m ''__proto__'' = None"
    by (simp add: aggregateStep_def Let_def merge over split: option.splits)
qed

lemma aggregateParameters_proto: "aggregateParameters strAvg ps ''__proto__'' = None"
proof -
  have "m ''__proto__'' = None \<Longrightarrow> fold (aggregateStep strAvg) ps m ''__proto__'' = None" for m
    by (induction ps arbitrary: m) (simp_all add: aggregateStep_proto)
  then show ?thesis
    by (simp add: aggregateParameters_def)
qed

text \<open>On two numbers the merged value is their average.\<close>

lemma mergedValue_numbers: "mergedValue strAvg (Num u) (Num w) = Num ((u + w) / 2)"
  by (simp add: mergedValue_def)

text \<open>
  C3 (as stated). An override of 100 followed by a later policy whose own parameter set
  gives 300: the last override for the key is 100, the aggregated value is their average.
\<close>

theorem override_then_parameter:
  "lastOverride [overriddenFine 100, fineOnly 300] ''fineAmount'' = Some (Num 100)
   \<and> aggregateParameters noStrings [overriddenFine 100, fineOnly 300] ''fineAmount'' = Some (Num 200)"
  by (simp add: aggregateParameters_def aggregateStep_def mergeParameter_def applyOverride_def
      overriddenFine_def fineOnly_def js_get_def js_set_def inheritedNames_def)

text \<open>
  C3 (amended). Each policy's overrides are written inside the loop: on the object as it
  stands after that policy's own parameter set has been merged, and before any later
  policy is processed. They are unconditional last writes for every key but \<open>__proto__\<close>,
  at which an assignment stores nothing. For such a key to which a policy's overrides
  give the value a: while the later policies do not mention the key, in their parameter
  sets or in their overrides, the aggregated value is a; and when the next policy that
  mentions it does so once, in its parameter set only and with the value x, the aggregated
  value becomes the merge of a and x, their average if x is a number and a is not
  undefined and x otherwise, and stays so while the policies after that do not mention the
  key.
\<close>

theorem overrides_written_in_the_loop:
  assumes "overrides p = Some ov" and "map_of (rev ov) k = Some a" and "k \<noteq> ''__proto__''"
    and "list_all (\<lambda>r. \<not> hasParameter r k) mid" and "lastOverride mid k = None"
    and "parameters q = pre @ (k, x) # post" and "k \<notin> fst ` set pre" and "k \<notin> fst ` set post"
    and "lastOverride [q] k = None"
    and "list_all (\<lambda>r. \<not> hasParameter r k) later" and "lastOverride later k = None"
  shows "aggregateParameters strAvg (earlier @ p # rest)
           = fold (aggregateStep strAvg) rest
               (fold applyOverride ov
                  (fold (mergeParameter strAvg) (parameters p) (aggregateParameters strAvg earlier)))
       \<and> aggregateParameters strAvg (earlier @ p # mid) k = Some a
       \<and> aggregateParameters strAvg (earlier @ p # mid @ q # later) k = Some (mergedValue strAvg a x)"
proof -
  let ?before = "aggregateParameters strAvg earlier"
  have loop: "aggregateParameters strAvg (earlier @ p # rest)
           = fold (aggregateStep strAvg) rest
               (fold applyOverride ov (fold (mergeParameter strAvg) (parameters p) ?before))" for rest
    using assms(1) by (simp add: aggregateParameters_def aggregateStep_def)
  have held: "aggregateStep strAvg p ?before k = Some a"
    using assms(1,2,3) by (rule aggregateStep_override)
  have wins: "fold (aggregateStep strAvg) mid (aggregateStep strAvg p ?before) k = Some a"
    using assms(4,5,3) held by (simp add: fold_aggregateStep_other)
  then have a: "aggregateParameters strAvg (earlier @ p # mid) k = Some a"
    by (simp add: aggregateParameters_def)
  have "aggregateStep strAvg q (fold (aggregateStep strAvg) mid (aggregateStep strAvg p ?before)) k
          = Some (mergedValue strAvg a x)"
    using wins assms(3,6,7,8,9) by (rule aggregateStep_parameter)
  then have "fold (aggregateStep strAvg) later
               (aggregateStep strAvg q (fold (aggregateStep strAvg) mid (aggregateStep strAvg p ?before))) k
          = Some (mergedValue strAvg a x)"
    using assms(10,11,3) by (simp add: fold_aggregateStep_other)
  then have b: "aggregateParameters strAvg (earlier @ p # mid @ q # later) k = Some (mergedValue strAvg a x)"
    by (simp add: aggregateParameters_def)
  show ?thesis
    using loop a b by blast
qed

theorem overrides_written_in_the_loop_witness:
  "overrides (overriddenFine 100) = Some [(''fineAmount'', Num 100)]
   \<and> map_of (rev [(''fineAmount'', Num 100)]) ''fineAmount'' = Some (Num 100)
   \<and> ''fineAmount'' \<noteq> ''__proto__''
   \<and> list_all (\<lambda>r. \<not> hasParameter r ''fineAmount'') [feeOnly 50]
   \<and> lastOverride [feeOnly 50] ''fineAmount'' = None
   \<and> parameters (averagedFine 300) = [(''taxRate'', Num 3)] @ (''fineAmount'', Num 300) # [(''feeAmount'', Num 20)]
   \<and> lastOverride [averagedFine 300] ''fineAmount'' = None
   \<and> list_all (\<lambda>r. \<not> hasParameter r ''fineAmount'') [feeOnly 60]
   \<and> lastOverride [feeOnly 60] ''fineAmount'' = None
   \<and> aggregateParameters noStrings ([fineOnly 300] @ overriddenFine 100 # [feeOnly 50]) ''fineAmount''
       = Some (Num 100)
   \<and> aggregateParameters noStrings
        ([fineOnly 300] @ overriddenFine 100 # [feeOnly 50] @ averagedFine 300 # [feeOnly 60]) ''fineAmount''
       = Some (Num 200)"
proof -
  have a: "overrides (overriddenFine 100) = Some [(''fineAmount'', Num 100)]"
    by (simp add: overriddenFine_def)
  have b: "map_of (rev [(''fineAmount'', Num 100)]) ''fineAmount'' = Some (Num 100)"
    by simp
  have c: "''fineAmount'' \<noteq> ''__proto__''"
    by simp
  have d: "list_all (\<lambda>r. \<not> hasParameter r ''fineAmount'') [feeOnly 50]"
    by (simp add: hasParameter_def feeOnly_def)
  have e: "lastOverride [feeOnly 50] ''fineAmount'' = None"
    by (simp add: feeOnly_def)
  have f: "parameters (averagedFine 300)
      = [(''taxRate'', Num 3)] @ (''fineAmount'', Num 300) # [(''feeAmount'', Num 20)]"
    by (simp add: averagedFine_def)
  have g: "''fineAmount'' \<notin> fst ` set [(''taxRate'', Num 3)]"
    and h: "''fineAmount'' \<notin> fst ` set [(''feeAmount'', Num 20)]"
    by simp_all
  have i: "lastOverride [averagedFine 300] ''fineAmount'' = None"
    by (simp add: averagedFine_def)
  have j: "list_all (\<lambda>r. \<not> hasParameter r ''fineAmount'') [feeOnly 60]"
    by (simp add: hasParameter_def feeOnly_def)
  have l: "lastOverride [feeOnly 60] ''fineAmount'' = None"
    by (simp add: feeOnly_def)
  show ?thesis
    using a b c d e f i j l
      overrides_written_in_the_loop [OF a b c d e f g h i j l, of noStrings "[fineOnly 300]" "[]"]
    by (simp add: mergedValue_numbers)
qed

subsection \<open>Seasonal factors\<close>

lemma seasonality_length: "length getSeasonalityFactors = 12"
  by (simp add: getSeasonalityFactors_def)

text \<open>Within the first twelve months the factor is the table entry, or 1 with the flag unset.\<close>

lemma seasonal_first_year:
  assumes "1 \<le> m" "m \<le> 12"
  shows "seasonFactorOf cfg m =
     Some (if includeSeasonality cfg then getSeasonalityFactors ! ((m - 1) mod 12) else 1)"
proof -
  have "m - 1 < 12" and "(m - 1) mod 12 = m - 1"
    using assms by simp_all
  then show ?thesis
    by (simp add: seasonFactorOf_def js_index_def seasonality_length)
qed

lemma seasonal_flag_unset: "\<not> includeSeasonality cfg \<Longrightarrow> seasonFactorOf cfg m = Some 1"
  by (simp add: seasonFactorOf_def)

text \<open>
  C4. With the seasonality flag set and a time horizon of 13 months, month 13 reads the
  table at index 12, past its end: the factor is undefined, where entry (13 - 1) mod 12
  is 0.85, and the revenue and workload projected for month 13 are not numbers.
\<close>

theorem seasonal_month_13:
  "seasonFactorOf (config longHorizon) 13 = None
   \<and> js_index getSeasonalityFactors ((13 - 1) mod 12) = Some 0.85
   \<and> (\<exists>m. simulate strAvg random longHorizon = Inr m
        \<and> length (monthlyProjections m) = 13
        \<and> month (monthlyProjections m ! 12) = 13
        \<and> mp_revenue (monthlyProjections m ! 12) = None
        \<and> mp_workload (monthlyProjections m ! 12) = None)"
proof -
  have a: "seasonFactorOf (config longHorizon) 13 = None"
    by (simp add: seasonFactorOf_def js_index_def seasonality_length longHorizon_def)
  have b: "js_index getSeasonalityFactors ((13 - 1) mod 12) = Some 0.85"
    by (simp add: js_index_def getSeasonalityFactors_def)
  obtain m where m: "simulate strAvg random longHorizon = Inr m"
    and mp: "monthlyProjections m = monthlyProjections initializeResults @
            map (\<lambda>i. projectionAt random longHorizon m (Suc i) (2 * i))
                [0 ..< nat \<lfloor>timeHorizon (config longHorizon)\<rfloor>]"
    using run_fields [of strAvg random longHorizon initializeResults] unfolding simulate_def by blast
  have th: "timeHorizon (config longHorizon) = 13"
    by (simp add: longHorizon_def)
  have c: "length (monthlyProjections m) = 13"
    unfolding mp by (simp add: th initializeResults_def)
  have d: "monthlyProjections m ! 12 = projectionAt random longHorizon m 13 24"
    unfolding mp by (simp add: th initializeResults_def del: upt_Suc)
  show ?thesis
    using a b m c d by (simp add: projectionAt_def)
qed

subsection \<open>Revenue\<close>

lemma numberField_update_other:
  "k \<noteq> k' \<Longrightarrow> numberField (params(k' \<mapsto> v)) k = numberField params k"
  by (simp add: numberField_def)

lemma getDetectionRate_fee:
  "getDetectionRate (params(''feeAmount'' \<mapsto> v)) = getDetectionRate params"
  by (simp add: getDetectionRate_def numberField_update_other)

lemma revenueCitizen_step_fee:
  "fst (revenueCitizen (params(''feeAmount'' \<mapsto> v)) cfg g (f, p, t))
     = fst (revenueCitizen params cfg g (f, p', t))
   \<and> snd (snd (revenueCitizen (params(''feeAmount'' \<mapsto> v)) cfg g (f, p, t)))
     = snd (snd (revenueCitizen params cfg g (f, p', t)))"
  by (simp add: revenueCitizen_def Let_def getDetectionRate_fee numberField_update_other)

lemma revenueBusiness_step_fee:
  "fst (revenueBusiness (params(''feeAmount'' \<mapsto> v)) cfg b (f, p, t))
     = fst (revenueBusiness params cfg b (f, p', t))
   \<and> snd (snd (revenueBusiness (params(''feeAmount'' \<mapsto> v)) cfg b (f, p, t)))
     = snd (snd (revenueBusiness params cfg b (f, p', t)))"
  by (simp add: revenueBusiness_def Let_def getDetectionRate_fee numberField_update_other)

lemma fold_agree_outer:
  assumes step: "\<And>x f p p' t. fst (F x (f, p, t)) = fst (G x (f, p', t))
                   \<and> snd (snd (F x (f, p, t))) = snd (snd (G x (f, p', t)))"
  shows "fst (fold F xs (f, p, t)) = fst (fold G xs (f, p', t))
       \<and> snd (snd (fold F xs (f, p, t))) = snd (snd (fold G xs (f, p', t)))"
proof (induction xs arbitrary: f p p' t)
  case Nil
  then show ?case by simp
next
  case (Cons x xs)
  obtain a b c where F: "F x (f, p, t) = (a, b, c)"
    by (metis prod_cases3)
  obtain a' b' c' where G: "G x (f, p', t) = (a', b', c')"
    by (metis prod_cases3)
  have "a = a'" "c = c'"
    using step [of x f p t p'] F G by simp_all
  then show ?case
    using Cons.IH [of a b c b'] F G by simp
qed

lemma revenueCitizen_fee:
  "fst (fold (revenueCitizen (params(''feeAmount'' \<mapsto> v)) cfg) gs (f, p, t))
     = fst (fold (revenueCitizen params cfg) gs (f, p', t))
   \<and> snd (snd (fold (revenueCitizen (params(''feeAmount'' \<mapsto> v)) cfg) gs (f, p, t)))
     = snd (snd (fold (revenueCitizen params cfg) gs (f, p', t)))"
  by (rule fold_agree_outer) (rule revenueCitizen_step_fee)

lemma revenueBusiness_fee:
  "fst (fold (revenueBusiness (params(''feeAmount'' \<mapsto> v)) cfg) bs (f, p, t))
     = fst (fold (revenueBusiness params cfg) bs (f, p', t))
   \<and> snd (snd (fold (revenueBusiness (params(''feeAmount'' \<mapsto> v)) cfg) bs (f, p, t)))
     = snd (snd (fold (revenueBusiness params cfg) bs (f, p', t)))"
  by (rule fold_agree_outer) (rule revenueBusiness_step_fee)

lemma revenueWith_fields:
  assumes "fold (revenueBusiness params (config inp)) (businessCategories inp)
             (fold (revenueCitizen params (config inp)) (citizenGroups inp) (Some 0, Some 0, Some 0))
           = (f, p, t)"
  shows "fromFines (revenueWith params inp)
           = map_option (\<lambda>x. x * (1 + (economicGrowth (config inp) / 100) * (timeHorizon (config inp) / 12))) f"
    and "fromPermits (revenueWith params inp)
           = map_option (\<lambda>x. x * (1 + (economicGrowth (config inp) / 100) * (timeHorizon (config inp) / 12))) p"
    and "fromTaxes (revenueWith params inp)
           = map_option (\<lambda>x. x * (1 + (economicGrowth (config inp) / 100) * (timeHorizon (config inp) / 12))) t"
    and "fromFees (revenueWith params inp) = Some 0"
    and "rev_total (revenueWith params inp)
           = map_option (\<lambda>x. x * (1 + (economicGrowth (config inp) / 100) * (timeHorizon (config inp) / 12)))
               (num2 (+) (num2 (+) (num2 (+) f p) t) (Some 0))"
  using assms by (simp_all add: revenueWith_def Let_def)

text \<open>The fees component is 0 on every input.\<close>

lemma fromFees_zero: "fromFees (revenueWith params inp) = Some 0"
proof -
  obtain f p t where "fold (revenueBusiness params (config inp)) (businessCategories inp)
             (fold (revenueCitizen params (config inp)) (citizenGroups inp) (Some 0, Some 0, Some 0))
           = (f, p, t)"
    by (metis prod_cases3)
  from revenueWith_fields(4) [OF this] show ?thesis .
qed

text \<open>The fee amount does not reach the fines, taxes and fees components.\<close>

lemma revenueWith_fee:
  "fromFines (revenueWith (params(''feeAmount'' \<mapsto> v)) inp) = fromFines (revenueWith params inp)
   \<and> fromTaxes (revenueWith (params(''feeAmount'' \<mapsto> v)) inp) = fromTaxes (revenueWith params inp)
   \<and> fromFees (revenueWith (params(''feeAmount'' \<mapsto> v)) inp) = fromFees (revenueWith params inp)"
proof -
  obtain f p t where c: "fold (revenueCitizen params (config inp)) (citizenGroups inp)
                           (Some 0, Some 0, Some 0) = (f, p, t)"
    by (metis prod_cases3)
  obtain f' p' t' where c': "fold (revenueCitizen (params(''feeAmount'' \<mapsto> v)) (config inp))
                              (citizenGroups inp) (Some 0, Some 0, Some 0) = (f', p', t')"
    by (metis prod_cases3)
  have same: "f' = f" "t' = t"
    using revenueCitizen_fee [of params v "config inp" "citizenGroups inp" "Some 0" "Some 0" "Some 0" "Some 0"]
      c c' by simp_all
  obtain a b d where r: "fold (revenueBusiness params (config inp)) (businessCategories inp) (f, p, t)
      = (a, b, d)"
    by (metis prod_cases3)
  obtain a' b' d' where r': "fold (revenueBusiness (params(''feeAmount'' \<mapsto> v)) (config inp))
      (businessCategories inp) (f, p', t) = (a', b', d')"
    by (metis prod_cases3)
  have same': "a' = a" "d' = d"
    using revenueBusiness_fee [of params v "config inp" "businessCategories inp" f p' t p] r r'
    by simp_all
  show ?thesis
    using revenueWith_fields [of params inp a b d]
      revenueWith_fields [of "params(''feeAmount'' \<mapsto> v)" inp a b' d]
      c c' r r' same same'
    by simp
qed

text \<open>The loops update the three totals independently of one another.\<close>

lemma fold_components:
  assumes "\<And>x a b c. F x (a, b, c) = (A x a, B x b, C x c)"
  shows "fold F xs (a, b, c) = (fold A xs a, fold B xs b, fold C xs c)"
  by (induction xs arbitrary: a b c) (simp_all add: assms)

lemma num2_add_scaled:
  "num2 (+) (map_option (\<lambda>u. u * c) x) (map_option (\<lambda>u. u * c) y)
     = map_option (\<lambda>u. u * c) (num2 (+) x y)"
  by (cases x; cases y) (simp_all add: algebra_simps)

lemma fold_scaled:
  "fold (\<lambda>x acc. num2 (+) acc (map_option (\<lambda>u. u * c) (h x))) xs (map_option (\<lambda>u. u * c) A)
     = map_option (\<lambda>u. u * c) (fold (\<lambda>x acc. num2 (+) acc (h x)) xs A)"
  by (induction xs arbitrary: A) (simp_all add: num2_add_scaled)

text \<open>
  The fee amount reaches the permits component: it is the number of permit fees charged,
  times the fee amount, times the growth factor.
\<close>

lemma fromPermits_formula:
  "fromPermits (revenueWith params inp)
     = map_option
         (\<lambda>units. units * orDefault (numberField params ''feeAmount'') 0
                    * (1 + (economicGrowth (config inp) / 100) * (timeHorizon (config inp) / 12)))
         (permitUnits inp)"
proof -
  let ?fee = "orDefault (numberField params ''feeAmount'') 0"
  let ?P = "\<lambda>grp acc. num2 (+) acc
              (map_option (\<lambda>u. u * ?fee) (Some (real_of_int (population grp) * getPermitEligibility grp)))"
  let ?Q = "\<lambda>business acc. num2 (+) acc
              (map_option (\<lambda>u. u * ?fee)
                 (map_option (\<lambda>multiplier. real_of_int (bc_count business) * multiplier)
                    (getBusinessMultiplier business)))"
  obtain A C where citizen: "\<And>grp a b c.
      revenueCitizen params (config inp) grp (a, b, c) = (A grp a, ?P grp b, C grp c)"
    by (simp add: revenueCitizen_def Let_def)
  have scaled: "map_option (\<lambda>multiplier. cnt * ?fee * multiplier) m
      = map_option (\<lambda>u. u * ?fee) (map_option (\<lambda>multiplier. cnt * multiplier) m)" for cnt m
    by (cases m) simp_all
  obtain A' C' where business: "\<And>b x y z.
      revenueBusiness params (config inp) b (x, y, z) = (A' b x, ?Q b y, C' b z)"
    by (simp add: revenueBusiness_def Let_def scaled)
  obtain f t where totals:
    "fold (revenueBusiness params (config inp)) (businessCategories inp)
       (fold (revenueCitizen params (config inp)) (citizenGroups inp) (Some 0, Some 0, Some 0))
     = (f, fold ?Q (businessCategories inp) (fold ?P (citizenGroups inp) (Some 0)), t)"
    by (simp add: fold_components [of "revenueCitizen params (config inp)", OF citizen]
        fold_components [of "revenueBusiness params (config inp)", OF business])
  have "fold ?Q (businessCategories inp) (fold ?P (citizenGroups inp) (Some 0))
      = map_option (\<lambda>u. u * ?fee) (permitUnits inp)"
    using fold_scaled [of ?fee "\<lambda>g. Some (real_of_int (population g) * getPermitEligibility g)"
        "citizenGroups inp" "Some 0"]
      fold_scaled [of ?fee "\<lambda>b. map_option (\<lambda>multiplier. real_of_int (bc_count b) * multiplier)
                                (getBusinessMultiplier b)" "businessCategories inp"]
    by (simp add: permitUnits_def)
  then show ?thesis
    using revenueWith_fields(2) [OF totals] by (simp add: option.map_comp comp_def)
qed

text \<open>
  When no business's size category names an inherited member, every component is a
  number and the total is their sum.
\<close>

lemma ordinary_lookups:
  assumes "sizeKey b \<notin> set inheritedNames"
  shows "\<exists>m r. getBusinessMultiplier b = Some m \<and> getAverageBusinessRevenue b = Some r"
  using assms
  by (auto simp: getBusinessMultiplier_def getAverageBusinessRevenue_def js_get_def Let_def truthy_def
      split: option.splits)

lemma revenueCitizen_numbers:
  "\<exists>f' p' t'. fold (revenueCitizen params cfg) gs (Some f, Some p, Some t) = (Some f', Some p', Some t')"
  by (induction gs arbitrary: f p t) (simp_all add: revenueCitizen_def Let_def)

lemma revenueBusiness_numbers:
  assumes "list_all (\<lambda>b. sizeKey b \<notin> set inheritedNames) bs"
  shows "\<exists>f' p' t'. fold (revenueBusiness params cfg) bs (Some f, Some p, Some t) = (Some f', Some p', Some t')"
  using assms
proof (induction bs arbitrary: f p t)
  case Nil
  then show ?case by simp
next
  case (Cons b bs)
  then obtain m r where "getBusinessMultiplier b = Some m" "getAverageBusinessRevenue b = Some r"
    using ordinary_lookups [of b] by auto
  then show ?case
    using Cons by (simp add: revenueBusiness_def Let_def)
qed

lemma revenue_sum_ordinary:
  assumes "list_all (\<lambda>b. sizeKey b \<notin> set inheritedNames) (businessCategories inp)"
  shows "\<exists>f p t. fromFines (revenueWith params inp) = Some f
           \<and> fromPermits (revenueWith params inp) = Some p
           \<and> fromTaxes (revenueWith params inp) = Some t
           \<and> fromFees (revenueWith params inp) = Some 0
           \<and> rev_total (revenueWith params inp) = Some (f + p + t + 0)"
proof -
  obtain f p t where c: "fold (revenueCitizen params (config inp)) (citizenGroups inp)
      (Some 0, Some 0, Some 0) = (Some f, Some p, Some t)"
    using revenueCitizen_numbers by blast
  obtain f' p' t' where b: "fold (revenueBusiness params (config inp)) (businessCategories inp)
      (Some f, Some p, Some t) = (Some f', Some p', Some t')"
    using revenueBusiness_numbers [OF assms] by blast
  have "fold (revenueBusiness params (config inp)) (businessCategories inp)
             (fold (revenueCitizen params (config inp)) (citizenGroups inp) (Some 0, Some 0, Some 0))
           = (Some f', Some p', Some t')"
    using c b by simp
  from revenueWith_fields [OF this] show ?thesis
    by (simp add: algebra_simps)
qed

text \<open>
  C5. For a business category whose size category is the string \<open>constructor\<close>, the two
  lookup tables return an inherited member instead of a number: the fines, permits and
  taxes components and the total of the run are \<open>NaN\<close>, so the total is not the sum of the
  components, while the fees component is 0. The runner's copy of the engine gives the
  same business the multiplier 1.
\<close>

theorem inherited_size_category_revenue:
  "\<exists>m. simulate strAvg random oddInput = Inr m
     \<and> rev_total (revenue m) = None
     \<and> fromFines (revenue m) = None
     \<and> fromPermits (revenue m) = None
     \<and> fromTaxes (revenue m) = None
     \<and> fromFees (revenue m) = Some 0
     \<and> getBusinessMultiplier oddShops = None
     \<and> getAverageBusinessRevenue oddShops = None
     \<and> runnerMultiplier oddShops = 1"
proof -
  have key: "sizeKey oddShops = ''constructor''"
    by (simp add: sizeKey_def oddShops_def)
  have mult: "getBusinessMultiplier oddShops = None"
    by (simp add: getBusinessMultiplier_def key js_get_def sizeMultipliers_def inheritedNames_def)
  have rules: "bc_behaviorRules oddShops = None"
    by (simp add: oddShops_def)
  have avg: "getAverageBusinessRevenue oddShops = None"
    by (simp add: getAverageBusinessRevenue_def key rules js_get_def baseRevenue_def inheritedNames_def
        Let_def truthy_def optionalField_def)
  have step: "revenueBusiness params cfg oddShops (f, p, t) = (None, None, None)" for params cfg f p t
    by (simp add: revenueBusiness_def Let_def mult avg)
  have totals: "fold (revenueBusiness params (config oddInput)) (businessCategories oddInput)
             (fold (revenueCitizen params (config oddInput)) (citizenGroups oddInput) (Some 0, Some 0, Some 0))
           = (None, None, None)" for params
  proof -
    obtain f p t where "fold (revenueCitizen params (config oddInput)) (citizenGroups oddInput)
        (Some 0, Some 0, Some 0) = (f, p, t)"
      by (metis prod_cases3)
    then show ?thesis
      by (simp add: oddInput_def step)
  qed
  obtain m where m: "simulate strAvg random oddInput = Inr m"
    "revenue m = revenueWith (aggregateParameters strAvg (policies oddInput)) oddInput"
    using run_fields [of strAvg random oddInput initializeResults] unfolding simulate_def by blast
  have "runnerMultiplier oddShops = 1"
    by (simp add: runnerMultiplier_def oddShops_def)
  then show ?thesis
    using m(1) mult avg revenueWith_fields [OF totals, of "aggregateParameters strAvg (policies oddInput)"]
    unfolding m(2) [symmetric] by simp
qed

lemma scenario_parameters:
  "numberField (aggregateParameters strAvg [scenarioPolicy]) ''fineAmount'' = Some 150"
  "numberField (aggregateParameters strAvg [scenarioPolicy]) ''inspectionFrequency'' = Some 4"
  "numberField (aggregateParameters strAvg [scenarioPolicy]) ''feeAmount'' = Some 50"
  "numberField (aggregateParameters strAvg [scenarioPolicy]) ''taxRate'' = Some 2.5"
  "numberField (aggregateParameters strAvg [scenarioPolicy]) ''permitDuration'' = Some 365"
  by (simp_all add: numberField_def aggregateParameters_def aggregateStep_def mergeParameter_def
      scenarioPolicy_def js_get_def js_set_def inheritedNames_def)

text \<open>
  C6. For one citizen group (population 1000, compliance rate 0.8, average income 30000,
  permit eligibility 0.3), no businesses, one policy with the parameters fineAmount 150,
  inspectionFrequency 4, feeAmount 50, taxRate 2.5, permitDuration 365, and a 12-month
  horizon without seasonality or economic growth, the detection rate is 0.46 and the
  revenue stage produces fines 13800, permits 15000, taxes 750000 and total 778800, with a
  growth factor of 1.
\<close>

theorem scenario_revenue:
  "getDetectionRate (aggregateParameters strAvg (policies (scenarioInput growth))) = 0.46
   \<and> fromFines (revenue (calculateRevenue strAvg (scenarioInput growth) initializeResults)) = Some 13800
   \<and> fromPermits (revenue (calculateRevenue strAvg (scenarioInput growth) initializeResults)) = Some 15000
   \<and> fromTaxes (revenue (calculateRevenue strAvg (scenarioInput growth) initializeResults)) = Some 750000
   \<and> rev_total (revenue (calculateRevenue strAvg (scenarioInput growth) initializeResults)) = Some 778800
   \<and> 1 + (economicGrowth (config (scenarioInput growth)) / 100)
           * (timeHorizon (config (scenarioInput growth)) / 12) = 1"
proof -
  have det: "getDetectionRate (aggregateParameters strAvg [scenarioPolicy]) = 0.46"
    by (simp add: getDetectionRate_def scenario_parameters orDefault_def)
  have pe: "getPermitEligibility residents = 0.3"
    by (simp add: getPermitEligibility_def optionalField_def residents_def orDefault_def)
  have ai: "getAverageIncome residents = 30000"
    by (simp add: getAverageIncome_def optionalField_def residents_def orDefault_def)
  have grp: "population residents = 1000" "cg_complianceRate residents = 0.8"
    by (simp_all add: residents_def)
  have cfg: "economicGrowth (scenarioConfig growth) = 0" "timeHorizon (scenarioConfig growth) = 12"
    by (simp_all add: scenarioConfig_def)
  have step: "revenueCitizen (aggregateParameters strAvg [scenarioPolicy]) (scenarioConfig growth)
                residents (Some 0, Some 0, Some 0) = (Some 13800, Some 15000, Some 750000)"
    by (simp add: revenueCitizen_def Let_def det pe ai grp cfg scenario_parameters orDefault_def)
  have inp: "policies (scenarioInput growth) = [scenarioPolicy]"
    "config (scenarioInput growth) = scenarioConfig growth"
    "citizenGroups (scenarioInput growth) = [residents]"
    "businessCategories (scenarioInput growth) = []"
    by (simp_all add: scenarioInput_def)
  have totals: "fold (revenueBusiness (aggregateParameters strAvg [scenarioPolicy]) (config (scenarioInput growth)))
      (businessCategories (scenarioInput growth))
      (fold (revenueCitizen (aggregateParameters strAvg [scenarioPolicy]) (config (scenarioInput growth)))
         (citizenGroups (scenarioInput growth)) (Some 0, Some 0, Some 0))
      = (Some 13800, Some 15000, Some 750000)"
    by (simp add: inp step)
  show ?thesis
    using det revenueWith_fields [OF totals]
    by (simp add: calculateRevenue_def inp cfg)
qed

subsection \<open>The comparator\<close>

text \<open>Deltas are always scenario minus baseline.\<close>

lemma compareOne_delta:
  "k_revenue (delta (compareOne baseline sc))
     = num2 (-) (rev_total (revenue (sc_metrics sc))) (rev_total (revenue baseline))"
  "k_compliance (delta (compareOne baseline sc))
     = comp_overall (compliance (sc_metrics sc)) - comp_overall (compliance baseline)"
  "k_workload (delta (compareOne baseline sc))
     = totalHours (workload (sc_metrics sc)) - totalHours (workload baseline)"
  "k_satisfaction (delta (compareOne baseline sc))
     = sat_overall (satisfaction (sc_metrics sc)) - sat_overall (satisfaction baseline)"
  by (simp_all add: compareOne_def Let_def)

text \<open>On a baseline value that is not negative, the two percent changes agree.\<close>

lemma compareOne_percent_nonnegative:
  "rev_total (revenue baseline) = Some b \<Longrightarrow> rev_total (revenue (sc_metrics sc)) = Some v \<Longrightarrow> 0 \<le> b \<Longrightarrow>
     k_revenue (percentChange (compareOne baseline sc)) = Some (metricPercentChange b v)"
  "0 \<le> comp_overall (compliance baseline) \<Longrightarrow>
     k_compliance (percentChange (compareOne baseline sc))
       = metricPercentChange (comp_overall (compliance baseline))
           (comp_overall (compliance (sc_metrics sc)))"
  "0 \<le> totalHours (workload baseline) \<Longrightarrow>
     k_workload (percentChange (compareOne baseline sc))
       = metricPercentChange (totalHours (workload baseline)) (totalHours (workload (sc_metrics sc)))"
  "0 \<le> sat_overall (satisfaction baseline) \<Longrightarrow>
     k_satisfaction (percentChange (compareOne baseline sc))
       = metricPercentChange (sat_overall (satisfaction baseline))
           (sat_overall (satisfaction (sc_metrics sc)))"
  by (simp_all add: compareOne_def metricPercentChange_def Let_def above0_def)

text \<open>
  C7. With a baseline revenue of -100 and a scenario revenue of -50, the delta is 50 and
  the comparator reports a percent change of 0, where delta / baseline * 100 is -50, the
  value the named-metric comparison computes.
\<close>

theorem negative_baseline_percent_change:
  "map (\<lambda>r. k_revenue (delta r)) (cr_scenarios (compareScenarios (withRevenue (- 100)) [lossScenario]))
     = [Some 50]
   \<and> map (\<lambda>r. k_revenue (percentChange r))
        (cr_scenarios (compareScenarios (withRevenue (- 100)) [lossScenario])) = [Some 0]
   \<and> metricPercentChange (- 100) (- 50) = - 50"
  by (simp add: compareScenarios_def compareOne_def Let_def withRevenue_def lossScenario_def
      metricPercentChange_def above0_def)

subsection \<open>Permit renewals\<close>

text \<open>
  C8 (as stated). With an effective \<open>permitDuration\<close> of 0 the permit computation takes no
  error branch: it divides by 365 / 30.
\<close>

theorem permitDuration_zero_is_guarded:
  "permitRenewalsPerYear
     (aggregateParameters noStrings [\<lparr>parameters = [(''permitDuration'', Num 0)], overrides = None\<rparr>])
     = Inr (12 / (365 / 30))"
  by (simp add: permitRenewalsPerYear_def guardedDiv_def orDefault_def numberField_def
      aggregateParameters_def aggregateStep_def mergeParameter_def js_get_def js_set_def
      inheritedNames_def)

text \<open>
  C8 (amended). The permit computation is 12 / ((permitDuration || 365) / 30): a
  \<open>permitDuration\<close> of 0 is replaced by 365 like a missing one, so the divisor is never
  zero, no division by zero is performed for any effective parameters, and the workload
  stage always returns.
\<close>

theorem permit_division_never_by_zero:
  "permitRenewalsPerYear params = Inr (12 / (orDefault (numberField params ''permitDuration'') 365 / 30))
   \<and> orDefault (numberField params ''permitDuration'') 365 / 30 \<noteq> 0
   \<and> permitRenewalsPerYear (params(''permitDuration'' \<mapsto> Num 0)) = Inr (12 / (365 / 30))
   \<and> permitRenewalsPerYear (params(''permitDuration'' := None)) = Inr (12 / (365 / 30))
   \<and> (\<exists>w. workloadWith params inp results = Inr w)"
proof -
  have "orDefault (numberField params ''permitDuration'') 365 / 30 \<noteq> 0"
    using orDefault_nonzero [of 365 "numberField params ''permitDuration''"] by simp
  moreover have "permitRenewalsPerYear (params(''permitDuration'' \<mapsto> Num 0)) = Inr (12 / (365 / 30))"
    "permitRenewalsPerYear (params(''permitDuration'' := None)) = Inr (12 / (365 / 30))"
    by (simp_all add: permitRenewalsPerYear_value numberField_def orDefault_def)
  ultimately show ?thesis
    using permitRenewalsPerYear_value [of params] workloadWith_returns [of params inp results]
    by simp
qed


subsection \<open>Two runs on the same input\<close>

lemma jitter_bound:
  fixes c r :: real
  assumes "0 \<le> r" "r < 1"
  shows "\<bar>c * (1 + (r * 0.02 - 0.01)) - c\<bar> \<le> 0.01 * \<bar>c\<bar>"
proof -
  have "c * (1 + (r * 0.02 - 0.01)) - c = c * (r * 0.02 - 0.01)"
    by (simp add: algebra_simps)
  moreover have "\<bar>r * 0.02 - 0.01\<bar> \<le> 0.01"
  proof (rule abs_leI)
    show "r * 0.02 - 0.01 \<le> 0.01" using assms by simp
    show "- (r * 0.02 - 0.01) \<le> 0.01" using assms by simp
  qed
  ultimately show ?thesis
    using mult_left_mono [of "\<bar>r * 0.02 - 0.01\<bar>" "0.01" "\<bar>c\<bar>"]
    by (simp add: abs_mult mult.commute)
qed

text \<open>
  C9. Two runs on the same input, each on a newly constructed engine and with any two
  random sources, return
  metrics that agree on the revenue, compliance, workload and satisfaction groups
  (breakdown maps included) and on the month, revenue and workload of every monthly
  projection. Only the compliance and satisfaction of the projections depend on the
  random source: month i + 1 multiplies the overall value by 1 + (r * 0.02 - 0.01), with
  r the draw 2 i for compliance and the draw 2 i + 1 for satisfaction, which stays within
  one percent of the overall value when every draw lies in [0,1).
\<close>

theorem runs_differ_only_in_jitter:
  "\<exists>m1 m2. simulate strAvg random1 inp = Inr m1 \<and> simulate strAvg random2 inp = Inr m2
     \<and> revenue m1 = revenue m2 \<and> compliance m1 = compliance m2
     \<and> workload m1 = workload m2 \<and> satisfaction m1 = satisfaction m2
     \<and> map month (monthlyProjections m1) = map month (monthlyProjections m2)
     \<and> map mp_revenue (monthlyProjections m1) = map mp_revenue (monthlyProjections m2)
     \<and> map mp_workload (monthlyProjections m1) = map mp_workload (monthlyProjections m2)
     \<and> map mp_compliance (monthlyProjections m1)
         = map (\<lambda>i. comp_overall (compliance m1) * (1 + (random1 (2 * i) * 0.02 - 0.01)))
               [0 ..< nat \<lfloor>timeHorizon (config inp)\<rfloor>]
     \<and> map mp_satisfaction (monthlyProjections m1)
         = map (\<lambda>i. sat_overall (satisfaction m1) * (1 + (random1 (2 * i + 1) * 0.02 - 0.01)))
               [0 ..< nat \<lfloor>timeHorizon (config inp)\<rfloor>]
     \<and> ((\<forall>n. 0 \<le> random1 n \<and> random1 n < 1) \<longrightarrow>
          list_all (\<lambda>p. \<bar>mp_compliance p - comp_overall (compliance m1)\<bar>
                           \<le> 0.01 * \<bar>comp_overall (compliance m1)\<bar>
                       \<and> \<bar>mp_satisfaction p - sat_overall (satisfaction m1)\<bar>
                           \<le> 0.01 * \<bar>sat_overall (satisfaction m1)\<bar>)
                   (monthlyProjections m1))"
proof -
  let ?P = "aggregateParameters strAvg (policies inp)"
  let ?n = "nat \<lfloor>timeHorizon (config inp)\<rfloor>"
  obtain m1 where m1: "simulate strAvg random1 inp = Inr m1"
    "revenue m1 = revenueWith ?P inp" "compliance m1 = complianceWith ?P inp"
    "satisfaction m1 = satisfactionWith ?P inp"
    "workloadWith ?P inp (calculateCompliance strAvg inp (calculateRevenue strAvg inp initializeResults))
       = Inr (workload m1)"
    "monthlyProjections m1 = map (\<lambda>i. projectionAt random1 inp m1 (Suc i) (2 * i)) [0 ..< ?n]"
    using run_fields [of strAvg random1 inp initializeResults]
    unfolding simulate_def by (auto simp: initializeResults_def)
  obtain m2 where m2: "simulate strAvg random2 inp = Inr m2"
    "revenue m2 = revenueWith ?P inp" "compliance m2 = complianceWith ?P inp"
    "satisfaction m2 = satisfactionWith ?P inp"
    "workloadWith ?P inp (calculateCompliance strAvg inp (calculateRevenue strAvg inp initializeResults))
       = Inr (workload m2)"
    "monthlyProjections m2 = map (\<lambda>i. projectionAt random2 inp m2 (Suc i) (2 * i)) [0 ..< ?n]"
    using run_fields [of strAvg random2 inp initializeResults]
    unfolding simulate_def by (auto simp: initializeResults_def)
  have groups: "revenue m1 = revenue m2" "compliance m1 = compliance m2"
    "workload m1 = workload m2" "satisfaction m1 = satisfaction m2"
    using m1 m2 by simp_all
  have months: "map month (monthlyProjections m1) = map month (monthlyProjections m2)"
    "map mp_revenue (monthlyProjections m1) = map mp_revenue (monthlyProjections m2)"
    "map mp_workload (monthlyProjections m1) = map mp_workload (monthlyProjections m2)"
    unfolding m1(6) m2(6) by (simp_all add: projectionAt_def Let_def groups)
  have jitter: "map mp_compliance (monthlyProjections m1)
         = map (\<lambda>i. comp_overall (compliance m1) * (1 + (random1 (2 * i) * 0.02 - 0.01))) [0 ..< ?n]"
    "map mp_satisfaction (monthlyProjections m1)
         = map (\<lambda>i. sat_overall (satisfaction m1) * (1 + (random1 (2 * i + 1) * 0.02 - 0.01))) [0 ..< ?n]"
    unfolding m1(6) by (simp_all add: projectionAt_def Let_def)
  have bound: "list_all (\<lambda>p. \<bar>mp_compliance p - comp_overall (compliance m1)\<bar>
                           \<le> 0.01 * \<bar>comp_overall (compliance m1)\<bar>
                       \<and> \<bar>mp_satisfaction p - sat_overall (satisfaction m1)\<bar>
                           \<le> 0.01 * \<bar>sat_overall (satisfaction m1)\<bar>)
                   (monthlyProjections m1)"
    if r: "\<forall>n. 0 \<le> random1 n \<and> random1 n < 1"
  proof -
    have "\<bar>mp_compliance (projectionAt random1 inp m1 k d) - comp_overall (compliance m1)\<bar>
            \<le> 0.01 * \<bar>comp_overall (compliance m1)\<bar>" for k d
      using jitter_bound [of "random1 d" "comp_overall (compliance m1)"] r
      by (simp add: projectionAt_def Let_def)
    moreover have "\<bar>mp_satisfaction (projectionAt random1 inp m1 k d) - sat_overall (satisfaction m1)\<bar>
            \<le> 0.01 * \<bar>sat_overall (satisfaction m1)\<bar>" for k d
      using jitter_bound [of "random1 (d + 1)" "sat_overall (satisfaction m1)"] r
      by (simp add: projectionAt_def Let_def)
    ultimately show ?thesis
      unfolding m1(6) list_all_iff by auto
  qed
  show ?thesis
    using m1(1) m2(1) groups months jitter bound by blast
qed

lemma town_compliance:
  "comp_overall (complianceWith (aggregateParameters noStrings [scenarioPolicy]) townInput) = 0.9325"
proof -
  have c: "citizenAdjustedCompliance (aggregateParameters noStrings [scenarioPolicy]) residents = 0.865"
    by (simp add: citizenAdjustedCompliance_def Let_def scenario_parameters orDefault_def residents_def)
  have b: "businessAdjustedCompliance (aggregateParameters noStrings [scenarioPolicy]) shops = 1"
    by (simp add: businessAdjustedCompliance_def Let_def scenario_parameters orDefault_def shops_def)
  show ?thesis
    apply (simp add: complianceWith_def townInput_def complianceCitizen_def complianceBusiness_def Let_def c b)
    apply (simp add: residents_def shops_def)
    done
qed


text \<open>The jitter is visible: with draws fixed at 0 and at 1/2 the first projections differ.\<close>

lemma town_runs_differ:
  "\<exists>m1 m2. simulate noStrings (\<lambda>n. 0) townInput = Inr m1
     \<and> simulate noStrings (\<lambda>n. 1 / 2) townInput = Inr m2
     \<and> mp_compliance (monthlyProjections m1 ! 0) = 0.9325 * 0.99
     \<and> mp_compliance (monthlyProjections m2 ! 0) = 0.9325"
proof -
  have th: "nat \<lfloor>timeHorizon (config townInput)\<rfloor> = 12"
    by (simp add: townInput_def scenarioConfig_def)
  have pol: "policies townInput = [scenarioPolicy]"
    by (simp add: townInput_def)
  obtain m1 where m1: "simulate noStrings (\<lambda>n. 0) townInput = Inr m1"
    "compliance m1 = complianceWith (aggregateParameters noStrings [scenarioPolicy]) townInput"
    "monthlyProjections m1 = map (\<lambda>i. projectionAt (\<lambda>n. 0) townInput m1 (Suc i) (2 * i)) [0 ..< 12]"
    using run_fields [of noStrings "\<lambda>n. 0" townInput initializeResults]
    unfolding simulate_def th pol by (auto simp: initializeResults_def)
  obtain m2 where m2: "simulate noStrings (\<lambda>n. 1 / 2) townInput = Inr m2"
    "compliance m2 = complianceWith (aggregateParameters noStrings [scenarioPolicy]) townInput"
    "monthlyProjections m2 = map (\<lambda>i. projectionAt (\<lambda>n. 1 / 2) townInput m2 (Suc i) (2 * i)) [0 ..< 12]"
    using run_fields [of noStrings "\<lambda>n. 1 / 2" townInput initializeResults]
    unfolding simulate_def th pol by (auto simp: initializeResults_def)
  have "mp_compliance (monthlyProjections m1 ! 0) = 0.9325 * 0.99"
    unfolding m1(3) by (simp add: projectionAt_def Let_def m1(2) town_compliance del: upt_Suc)
  moreover have "mp_compliance (monthlyProjections m2 ! 0) = 0.9325"
    unfolding m2(3) by (simp add: projectionAt_def Let_def m2(2) town_compliance del: upt_Suc)
  ultimately show ?thesis
    using m1(1) m2(1) by blast
qed

theorem runs_differ_only_in_jitter_witness:
  "\<exists>m1 m2. simulate noStrings (\<lambda>n. 0) townInput = Inr m1
     \<and> simulate noStrings (\<lambda>n. 1 / 2) townInput = Inr m2
     \<and> revenue m1 = revenue m2 \<and> compliance m1 = compliance m2
     \<and> workload m1 = workload m2 \<and> satisfaction m1 = satisfaction m2
     \<and> map month (monthlyProjections m1) = map month (monthlyProjections m2)
     \<and> map mp_revenue (monthlyProjections m1) = map mp_revenue (monthlyProjections m2)
     \<and> map mp_workload (monthlyProjections m1) = map mp_workload (monthlyProjections m2)
     \<and> length (monthlyProjections m1) = 12
     \<and> list_all (\<lambda>p. \<bar>mp_compliance p - comp_overall (compliance m1)\<bar>
                           \<le> 0.01 * \<bar>comp_overall (compliance m1)\<bar>
                       \<and> \<bar>mp_satisfaction p - sat_overall (satisfaction m1)\<bar>
                           \<le> 0.01 * \<bar>sat_overall (satisfaction m1)\<bar>)
                   (monthlyProjections m1)"
proof -
  have th: "nat \<lfloor>timeHorizon (config townInput)\<rfloor> = 12"
    by (simp add: townInput_def scenarioConfig_def)
  have r: "\<forall>n. 0 \<le> (\<lambda>n. 0 :: real) n \<and> (\<lambda>n. 0 :: real) n < 1"
    by simp
  obtain m1 m2 where m: "simulate noStrings (\<lambda>n. 0) townInput = Inr m1"
    "simulate noStrings (\<lambda>n. 1 / 2) townInput = Inr m2"
    "revenue m1 = revenue m2" "compliance m1 = compliance m2"
    "workload m1 = workload m2" "satisfaction m1 = satisfaction m2"
    "map month (monthlyProjections m1) = map month (monthlyProjections m2)"
    "map mp_revenue (monthlyProjections m1) = map mp_revenue (monthlyProjections m2)"
    "map mp_workload (monthlyProjections m1) = map mp_workload (monthlyProjections m2)"
    "map mp_compliance (monthlyProjections m1)
         = map (\<lambda>i. comp_overall (compliance m1) * (1 + ((\<lambda>n. 0) (2 * i) * 0.02 - 0.01))) [0 ..< 12]"
    "list_all (\<lambda>p. \<bar>mp_compliance p - comp_overall (compliance m1)\<bar>
                           \<le> 0.01 * \<bar>comp_overall (compliance m1)\<bar>
                       \<and> \<bar>mp_satisfaction p - sat_overall (satisfaction m1)\<bar>
                           \<le> 0.01 * \<bar>sat_overall (satisfaction m1)\<bar>)
                   (monthlyProjections m1)"
    using runs_differ_only_in_jitter [of noStrings "\<lambda>n. 0" townInput "\<lambda>n. 1 / 2"] r
    unfolding th by blast
  have "length (map mp_compliance (monthlyProjections m1)) = 12"
    unfolding m(10) by simp
  then have "length (monthlyProjections m1) = 12"
    by simp
  then show ?thesis
    using m by blast
qed

subsection \<open>Zero counts as missing\<close>

lemma orDefault_zero: "orDefault (Some 0) d = d" "orDefault None d = d"
  by (simp_all add: orDefault_def)

lemma numberField_zero:
  "orDefault (numberField (params(k \<mapsto> Num 0)) k) d = d"
  "orDefault (numberField (params(k := None)) k) d = d"
  "d \<noteq> 0 \<Longrightarrow> orDefault (numberField (params(k \<mapsto> Num d)) k) d = d"
  by (simp_all add: numberField_def orDefault_def)

lemma numberField_other:
  "k' \<noteq> k \<Longrightarrow> numberField (params(k \<mapsto> v)) k' = numberField params k'"
  "k' \<noteq> k \<Longrightarrow> numberField (params(k := None)) k' = numberField params k'"
  by (simp_all add: numberField_def)

lemma citizenAdjustedCompliance_permitDuration:
  "citizenAdjustedCompliance (params(''permitDuration'' \<mapsto> Num 0)) g
     = citizenAdjustedCompliance (params(''permitDuration'' \<mapsto> Num 365)) g"
  "citizenAdjustedCompliance (params(''permitDuration'' := None)) g
     = citizenAdjustedCompliance (params(''permitDuration'' \<mapsto> Num 365)) g"
  by (simp_all add: citizenAdjustedCompliance_def Let_def numberField_zero numberField_other)

lemma businessAdjustedCompliance_permitDuration:
  "businessAdjustedCompliance (params(''permitDuration'' \<mapsto> Num 0)) b
     = businessAdjustedCompliance (params(''permitDuration'' \<mapsto> Num 365)) b"
  "businessAdjustedCompliance (params(''permitDuration'' := None)) b
     = businessAdjustedCompliance (params(''permitDuration'' \<mapsto> Num 365)) b"
  by (simp_all add: businessAdjustedCompliance_def Let_def numberField_other)

lemma satisfaction_impacts_permitDuration:
  "satPermitImpact (params(''permitDuration'' \<mapsto> Num 0)) = satPermitImpact (params(''permitDuration'' \<mapsto> Num 365))"
  "satPermitImpact (params(''permitDuration'' := None)) = satPermitImpact (params(''permitDuration'' \<mapsto> Num 365))"
  "satFineImpact (params(''permitDuration'' \<mapsto> Num 0)) = satFineImpact (params(''permitDuration'' \<mapsto> Num 365))"
  "satFineImpact (params(''permitDuration'' := None)) = satFineImpact (params(''permitDuration'' \<mapsto> Num 365))"
  "satTaxImpact (params(''permitDuration'' \<mapsto> Num 0)) = satTaxImpact (params(''permitDuration'' \<mapsto> Num 365))"
  "satTaxImpact (params(''permitDuration'' := None)) = satTaxImpact (params(''permitDuration'' \<mapsto> Num 365))"
  "satGraceImpact (params(''permitDuration'' \<mapsto> Num 0)) = satGraceImpact (params(''permitDuration'' \<mapsto> Num 365))"
  "satGraceImpact (params(''permitDuration'' := None)) = satGraceImpact (params(''permitDuration'' \<mapsto> Num 365))"
  by (simp_all add: satPermitImpact_def satFineImpact_def satTaxImpact_def satGraceImpact_def
      numberField_zero numberField_other)

lemma complianceWith_permitDuration:
  "complianceWith (params(''permitDuration'' \<mapsto> Num 0)) inp
     = complianceWith (params(''permitDuration'' \<mapsto> Num 365)) inp"
  "complianceWith (params(''permitDuration'' := None)) inp
     = complianceWith (params(''permitDuration'' \<mapsto> Num 365)) inp"
  unfolding complianceWith_def complianceCitizen_tally complianceBusiness_tally
    citizenAdjustedCompliance_permitDuration businessAdjustedCompliance_permitDuration
  by (rule refl)+

lemma satisfactionWith_permitDuration:
  "satisfactionWith (params(''permitDuration'' \<mapsto> Num 0)) inp
     = satisfactionWith (params(''permitDuration'' \<mapsto> Num 365)) inp"
  "satisfactionWith (params(''permitDuration'' := None)) inp
     = satisfactionWith (params(''permitDuration'' \<mapsto> Num 365)) inp"
  unfolding satisfactionWith_def satisfactionCitizen_tally satisfactionBusiness_tally
    groupSatisfaction_def businessSatisfactionOf_def satisfaction_impacts_permitDuration
  by (rule refl)+

lemma workloadWith_permitDuration:
  "workloadWith (params(''permitDuration'' \<mapsto> Num 0)) inp results
     = workloadWith (params(''permitDuration'' \<mapsto> Num 365)) inp results"
  "workloadWith (params(''permitDuration'' := None)) inp results
     = workloadWith (params(''permitDuration'' \<mapsto> Num 365)) inp results"
  unfolding workloadWith_def permitRenewalsPerYear_value
  by (simp_all add: numberField_zero numberField_other Let_def)

text \<open>
  C10. A field given as 0 is read like a missing one, since defaults are applied with
  \<open>||\<close>. For a citizen group, a permit eligibility of 0 is computed as 0.3 and an average
  income of 0 as 30000, and the revenue loop treats the group as if the key were absent;
  an income sensitivity or policy awareness of 0 gives the satisfaction that 1 or a
  missing key gives, for citizens and (policy awareness) for businesses. An effective
  \<open>permitDuration\<close> of 0 gives the compliance, satisfaction and workload results that
  365 or a missing key gives.
\<close>

theorem zero_reads_as_default:
  "getPermitEligibility (grp\<lparr>demographics := Some (d(''permitEligibility'' \<mapsto> 0))\<rparr>) = 0.3
   \<and> getPermitEligibility (grp\<lparr>demographics := Some (d(''permitEligibility'' := None))\<rparr>) = 0.3
   \<and> getAverageIncome (grp\<lparr>demographics := Some (d(''averageIncome'' \<mapsto> 0))\<rparr>) = 30000
   \<and> getAverageIncome (grp\<lparr>demographics := Some (d(''averageIncome'' := None))\<rparr>) = 30000
   \<and> revenueCitizen params cfg (grp\<lparr>demographics := Some (d(''permitEligibility'' \<mapsto> 0))\<rparr>)
       = revenueCitizen params cfg (grp\<lparr>demographics := Some (d(''permitEligibility'' := None))\<rparr>)
   \<and> revenueCitizen params cfg (grp\<lparr>demographics := Some (d(''averageIncome'' \<mapsto> 0))\<rparr>)
       = revenueCitizen params cfg (grp\<lparr>demographics := Some (d(''averageIncome'' := None))\<rparr>)
   \<and> groupSatisfaction params (grp\<lparr>cg_behaviorRules := Some (b(''incomeSensitivity'' \<mapsto> 0))\<rparr>)
       = groupSatisfaction params (grp\<lparr>cg_behaviorRules := Some (b(''incomeSensitivity'' \<mapsto> 1))\<rparr>)
   \<and> groupSatisfaction params (grp\<lparr>cg_behaviorRules := Some (b(''incomeSensitivity'' \<mapsto> 0))\<rparr>)
       = groupSatisfaction params (grp\<lparr>cg_behaviorRules := Some (b(''incomeSensitivity'' := None))\<rparr>)
   \<and> groupSatisfaction params (grp\<lparr>cg_behaviorRules := Some (b(''policyAwareness'' \<mapsto> 0))\<rparr>)
       = groupSatisfaction params (grp\<lparr>cg_behaviorRules := Some (b(''policyAwareness'' \<mapsto> 1))\<rparr>)
   \<and> groupSatisfaction params (grp\<lparr>cg_behaviorRules := Some (b(''policyAwareness'' \<mapsto> 0))\<rparr>)
       = groupSatisfaction params (grp\<lparr>cg_behaviorRules := Some (b(''policyAwareness'' := None))\<rparr>)
   \<and> businessSatisfactionOf params (biz\<lparr>bc_behaviorRules := Some (b(''policyAwareness'' \<mapsto> 0))\<rparr>)
       = businessSatisfactionOf params (biz\<lparr>bc_behaviorRules := Some (b(''policyAwareness'' \<mapsto> 1))\<rparr>)
   \<and> businessSatisfactionOf params (biz\<lparr>bc_behaviorRules := Some (b(''policyAwareness'' \<mapsto> 0))\<rparr>)
       = businessSatisfactionOf params (biz\<lparr>bc_behaviorRules := Some (b(''policyAwareness'' := None))\<rparr>)
   \<and> complianceWith (params(''permitDuration'' \<mapsto> Num 0)) inp
       = complianceWith (params(''permitDuration'' \<mapsto> Num 365)) inp
   \<and> complianceWith (params(''permitDuration'' \<mapsto> Num 0)) inp
       = complianceWith (params(''permitDuration'' := None)) inp
   \<and> satisfactionWith (params(''permitDuration'' \<mapsto> Num 0)) inp
       = satisfactionWith (params(''permitDuration'' \<mapsto> Num 365)) inp
   \<and> satisfactionWith (params(''permitDuration'' \<mapsto> Num 0)) inp
       = satisfactionWith (params(''permitDuration'' := None)) inp
   \<and> workloadWith (params(''permitDuration'' \<mapsto> Num 0)) inp results
       = workloadWith (params(''permitDuration'' \<mapsto> Num 365)) inp results
   \<and> workloadWith (params(''permitDuration'' \<mapsto> Num 0)) inp results
       = workloadWith (params(''permitDuration'' := None)) inp results"
proof -
  have getters:
    "getPermitEligibility (grp\<lparr>demographics := Some (d(''permitEligibility'' \<mapsto> 0))\<rparr>) = 0.3"
    "getPermitEligibility (grp\<lparr>demographics := Some (d(''permitEligibility'' := None))\<rparr>) = 0.3"
    "getAverageIncome (grp\<lparr>demographics := Some (d(''averageIncome'' \<mapsto> 0))\<rparr>) = 30000"
    "getAverageIncome (grp\<lparr>demographics := Some (d(''averageIncome'' := None))\<rparr>) = 30000"
    by (simp_all add: getPermitEligibility_def getAverageIncome_def optionalField_def orDefault_def)
  have other:
    "getAverageIncome (grp\<lparr>demographics := Some (d(''permitEligibility'' \<mapsto> 0))\<rparr>)
       = getAverageIncome (grp\<lparr>demographics := Some (d(''permitEligibility'' := None))\<rparr>)"
    "getPermitEligibility (grp\<lparr>demographics := Some (d(''averageIncome'' \<mapsto> 0))\<rparr>)
       = getPermitEligibility (grp\<lparr>demographics := Some (d(''averageIncome'' := None))\<rparr>)"
    by (simp_all add: getPermitEligibility_def getAverageIncome_def optionalField_def)
  have rev:
    "revenueCitizen params cfg (grp\<lparr>demographics := Some (d(''permitEligibility'' \<mapsto> 0))\<rparr>)
       = revenueCitizen params cfg (grp\<lparr>demographics := Some (d(''permitEligibility'' := None))\<rparr>)"
    "revenueCitizen params cfg (grp\<lparr>demographics := Some (d(''averageIncome'' \<mapsto> 0))\<rparr>)
       = revenueCitizen params cfg (grp\<lparr>demographics := Some (d(''averageIncome'' := None))\<rparr>)"
    by (intro ext, simp add: revenueCitizen_def Let_def getters other split: prod.splits)+
  have sat:
    "groupSatisfaction params (grp\<lparr>cg_behaviorRules := Some (b(''incomeSensitivity'' \<mapsto> 0))\<rparr>)
       = groupSatisfaction params (grp\<lparr>cg_behaviorRules := Some (b(''incomeSensitivity'' \<mapsto> 1))\<rparr>)"
    "groupSatisfaction params (grp\<lparr>cg_behaviorRules := Some (b(''incomeSensitivity'' \<mapsto> 0))\<rparr>)
       = groupSatisfaction params (grp\<lparr>cg_behaviorRules := Some (b(''incomeSensitivity'' := None))\<rparr>)"
    "groupSatisfaction params (grp\<lparr>cg_behaviorRules := Some (b(''policyAwareness'' \<mapsto> 0))\<rparr>)
       = groupSatisfaction params (grp\<lparr>cg_behaviorRules := Some (b(''policyAwareness'' \<mapsto> 1))\<rparr>)"
    "groupSatisfaction params (grp\<lparr>cg_behaviorRules := Some (b(''policyAwareness'' \<mapsto> 0))\<rparr>)
       = groupSatisfaction params (grp\<lparr>cg_behaviorRules := Some (b(''policyAwareness'' := None))\<rparr>)"
    "businessSatisfactionOf params (biz\<lparr>bc_behaviorRules := Some (b(''policyAwareness'' \<mapsto> 0))\<rparr>)
       = businessSatisfactionOf params (biz\<lparr>bc_behaviorRules := Some (b(''policyAwareness'' \<mapsto> 1))\<rparr>)"
    "businessSatisfactionOf params (biz\<lparr>bc_behaviorRules := Some (b(''policyAwareness'' \<mapsto> 0))\<rparr>)
       = businessSatisfactionOf params (biz\<lparr>bc_behaviorRules := Some (b(''policyAwareness'' := None))\<rparr>)"
    by (simp_all add: groupSatisfaction_def businessSatisfactionOf_def Let_def optionalField_def
        orDefault_def)
  show ?thesis
    using getters rev sat
      complianceWith_permitDuration [of params inp] satisfactionWith_permitDuration [of params inp]
      workloadWith_permitDuration [of params inp results]
    by simp
qed

end
